theory Spec2Isabelle
  imports Main "HOL-Library.AList" "HOL-Library.Word"
begin

section \<open>Shared data: block identifiers, errors, times\<close>

text \<open>
  A ULID is a 48-bit millisecond timestamp followed by 80 bits of entropy;
  \<open>ULID_Time\<close> is what \<^verbatim>\<open>ulid.ULID.Time()\<close> returns.
\<close>

datatype ulid = ULID (ULID_Time: nat) (ULID_Entropy: nat)

text \<open>
  Go errors as values. \<open>Wrap msg e\<close> is \<^verbatim>\<open>errors.Wrap(e, msg)\<close> (also
  \<^verbatim>\<open>Wrapf\<close>), \<open>ErrNew msg\<close> is \<^verbatim>\<open>errors.New(msg)\<close>, \<open>ErrVersion v\<close> is
  \<^verbatim>\<open>errors.Errorf("unexpected meta file version %d", v)\<close> and \<open>ErrFailedToSync n\<close> is
  \<^verbatim>\<open>errors.Errorf("failed to sync %v blocks", n)\<close>. \<open>ErrOther\<close> stands for any
  error of the operating system, the JSON decoder or the bucket client other
  than \<^verbatim>\<open>os.ErrNotExist\<close>.
\<close>

datatype error =
    ErrNotExist
  | ErrOther string
  | ErrVersion int
  | ErrFailedToSync nat
  | ErrNew string
  | Wrap string error

text \<open>\<^verbatim>\<open>errors.Is(err, os.ErrNotExist)\<close>: looks through the chain of wrapped errors.\<close>

fun is_ErrNotExist :: "error \<Rightarrow> bool" where
  "is_ErrNotExist ErrNotExist = True"
| "is_ErrNotExist (Wrap msg e) = is_ErrNotExist e"
| "is_ErrNotExist e = False"

text \<open>
  Go's integer division truncates towards zero; \<open>div\<close> on \<open>int\<close> rounds down.
\<close>

definition go_div :: "int \<Rightarrow> int \<Rightarrow> int" where
  "go_div a b = sgn a * sgn b * (\<bar>a\<bar> div \<bar>b\<bar>)"

text \<open>
  A \<^verbatim>\<open>time.Time\<close> is modelled by its Unix time in nanoseconds and a
  \<^verbatim>\<open>model.Time\<close> by its Unix time in milliseconds, both as unbounded integers
  (the 64-bit range of \<^verbatim>\<open>UnixNano\<close>, the years 1678 to 2262, is not modelled).
  \<open>model_Time_Time\<close> is \<^verbatim>\<open>model.Time.Time()\<close>, \<open>TimeFromUnixNano\<close> is
  \<^verbatim>\<open>model.TimeFromUnixNano\<close>.
\<close>

definition model_Time_Time :: "int \<Rightarrow> int" where
  "model_Time_Time t = t * 1000000"

definition TimeFromUnixNano :: "int \<Rightarrow> int" where
  "TimeFromUnixNano n = go_div n 1000000"

section \<open>The shipper's meta files\<close>

text \<open>
  \<^verbatim>\<open>shipperMeta\<close> (mimir.shipper.json) and \<^verbatim>\<open>thanosShipperMeta\<close>
  (thanos.shipper.json). The Go map \<^verbatim>\<open>Shipped\<close> is an association list read
  with \<open>map_of\<close> and written with \<open>AList.update\<close>; its key order stands for the
  order in which Go happens to iterate the map.
\<close>

record shipperMeta =
  Version :: int
  Shipped :: "(ulid \<times> int) list"

record thanosShipperMeta =
  thanos_Version :: int
  Uploaded :: "ulid list"

definition shipperMetaVersion1 :: int where
  "shipperMetaVersion1 = 1"

text \<open>
  What \<^verbatim>\<open>os.ReadFile\<close> followed by \<^verbatim>\<open>json.Unmarshal\<close> finds at a path: no file,
  a file that cannot be read, bytes that do not decode, or the decoded value.
\<close>

datatype 'a stored = Absent | Unreadable string | Garbage string | Json 'a

record disk =
  mimir_shipper_json :: "shipperMeta stored"
  thanos_shipper_json :: "thanosShipperMeta stored"

definition readShipperMetaFile :: "disk \<Rightarrow> error + shipperMeta" where
  "readShipperMetaFile d =
     (case mimir_shipper_json d of
        Absent \<Rightarrow> Inl (Wrap ''failed to read'' ErrNotExist)
      | Unreadable msg \<Rightarrow> Inl (Wrap ''failed to read'' (ErrOther msg))
      | Garbage msg \<Rightarrow> Inl (Wrap ''failed to parse as JSON'' (ErrOther msg))
      | Json m \<Rightarrow>
          if Version m \<noteq> shipperMetaVersion1 then Inl (ErrVersion (Version m))
          else Inr m)"

definition readThanosShipperMetaFile :: "disk \<Rightarrow> error + thanosShipperMeta" where
  "readThanosShipperMetaFile d =
     (case thanos_shipper_json d of
        Absent \<Rightarrow> Inl (Wrap ''failed to read'' ErrNotExist)
      | Unreadable msg \<Rightarrow> Inl (Wrap ''failed to read'' (ErrOther msg))
      | Garbage msg \<Rightarrow> Inl (Wrap ''failed to parse as JSON'' (ErrOther msg))
      | Json m \<Rightarrow>
          if thanos_Version m \<noteq> shipperMetaVersion1 then Inl (ErrVersion (thanos_Version m))
          else Inr m)"

text \<open>
  The wall clock: \<open>clock k\<close> is what the \<open>k\<close>-th call of \<^verbatim>\<open>time.Now()\<close> returns
  (Unix nanoseconds). Every function that reads the clock takes the number of
  readings made so far and returns the new number.
\<close>

type_synonym clock = "nat \<Rightarrow> int"

text \<open>The loop of \<^verbatim>\<open>readThanosShippedBlocks\<close>: one clock reading per listed block.\<close>

fun stampUploaded ::
  "clock \<Rightarrow> ulid list \<Rightarrow> (ulid \<rightharpoonup> int) \<Rightarrow> nat \<Rightarrow> (ulid \<rightharpoonup> int) \<times> nat" where
  "stampUploaded clk [] shippedBlocks k = (shippedBlocks, k)"
| "stampUploaded clk (blockID # ids) shippedBlocks k =
     stampUploaded clk ids (shippedBlocks(blockID \<mapsto> clk k)) (Suc k)"

definition readThanosShippedBlocks ::
  "clock \<Rightarrow> disk \<Rightarrow> nat \<Rightarrow> error + ((ulid \<rightharpoonup> int) \<times> nat)" where
  "readThanosShippedBlocks clk d k =
     (case readThanosShipperMetaFile d of
        Inl err \<Rightarrow>
          if is_ErrNotExist err then Inr (stampUploaded clk [] Map.empty k)
          else Inl err
      | Inr m \<Rightarrow> Inr (stampUploaded clk (Uploaded m) Map.empty k))"

definition readShippedBlocks ::
  "clock \<Rightarrow> disk \<Rightarrow> nat \<Rightarrow> error + ((ulid \<rightharpoonup> int) \<times> nat)" where
  "readShippedBlocks clk d k =
     (case readShipperMetaFile d of
        Inl err \<Rightarrow> readThanosShippedBlocks clk d k
      | Inr m \<Rightarrow> Inr (map_option model_Time_Time \<circ> map_of (Shipped m), k))"

section \<open>Writing the meta files\<close>

text \<open>
  The file system calls of \<^verbatim>\<open>writeShipperMetaFile\<close>,
  \<^verbatim>\<open>writeThanosShipperMetaFile\<close> and \<^verbatim>\<open>renameFile\<close>, in the order the code makes
  them. An environment says which of them fail, per target file.
\<close>

datatype fs_op =
  OpCreate | OpEncode | OpClose | OpRemoveAll | OpRename | OpOpenDir | OpFdatasync | OpDirClose

datatype meta_name = MimirMeta | ThanosMeta

type_synonym fs_faults = "fs_op \<Rightarrow> error option"

text \<open>
  \<^verbatim>\<open>renameFile\<close>: remove the target, rename the temporary file onto it, sync the
  parent directory. A failed \<^verbatim>\<open>os.RemoveAll\<close> leaves the old file; a failed
  \<^verbatim>\<open>os.Rename\<close> leaves no file, the old one being removed already; a failure
  after the rename leaves the new file.
\<close>

definition renameFile :: "fs_faults \<Rightarrow> 'a \<Rightarrow> 'a stored \<Rightarrow> error option \<times> 'a stored" where
  "renameFile fails new old =
     (if fails OpRemoveAll \<noteq> None then (fails OpRemoveAll, old)
      else if fails OpRename \<noteq> None then (fails OpRename, Absent)
      else if fails OpOpenDir \<noteq> None then (fails OpOpenDir, Json new)
      else if fails OpFdatasync \<noteq> None then (fails OpFdatasync, Json new)
      else (fails OpDirClose, Json new))"

text \<open>
  The first half of both writers: create the temporary file, encode, close.
  The temporary file itself is never read and is not part of the model.
\<close>

definition writeTmp :: "fs_faults \<Rightarrow> error option" where
  "writeTmp fails =
     (if fails OpCreate \<noteq> None then fails OpCreate
      else if fails OpEncode \<noteq> None then fails OpEncode
      else fails OpClose)"

definition writeThanosShipperMetaFile ::
  "(meta_name \<Rightarrow> fs_faults) \<Rightarrow> thanosShipperMeta \<Rightarrow> disk \<Rightarrow> error option \<times> disk" where
  "writeThanosShipperMetaFile fs m d =
     (case writeTmp (fs ThanosMeta) of
        Some err \<Rightarrow> (Some err, d)
      | None \<Rightarrow>
          (case renameFile (fs ThanosMeta) m (thanos_shipper_json d) of
             (err, f) \<Rightarrow> (err, d\<lparr>thanos_shipper_json := f\<rparr>)))"

definition writeShipperMetaFile ::
  "(meta_name \<Rightarrow> fs_faults) \<Rightarrow> shipperMeta \<Rightarrow> disk \<Rightarrow> error option \<times> disk" where
  "writeShipperMetaFile fs m d =
     (case writeTmp (fs MimirMeta) of
        Some err \<Rightarrow> (Some err, d)
      | None \<Rightarrow>
          (case renameFile (fs MimirMeta) m (mimir_shipper_json d) of
             (Some err, f) \<Rightarrow>
               (Some (Wrap ''writing mimir shipped meta file'' err), d\<lparr>mimir_shipper_json := f\<rparr>)
           | (None, f) \<Rightarrow>
               (case writeThanosShipperMetaFile fs
                       \<lparr>thanos_Version = shipperMetaVersion1, Uploaded = map fst (Shipped m)\<rparr>
                       (d\<lparr>mimir_shipper_json := f\<rparr>) of
                  (Some err, d') \<Rightarrow> (Some (Wrap ''writing thanos shipped meta file'' err), d')
                | (None, d') \<Rightarrow> (None, d'))))"

section \<open>Local blocks and the bucket\<close>

text \<open>The fields of \<^verbatim>\<open>metadata.Meta\<close> that \<^verbatim>\<open>Sync\<close> reads.\<close>

record blockMeta =
  meta_ULID :: ulid
  MinTime :: int
  NumSamples :: nat
  Compaction_Level :: int

text \<open>
  One entry of the tenant directory, with what the calls made on it return:
  \<^verbatim>\<open>block.IsBlockDir\<close> on its name, \<^verbatim>\<open>os.Stat\<close> (an error, or whether it is a
  directory) and \<^verbatim>\<open>metadata.ReadFromDir\<close>.
\<close>

record dirent =
  IsBlockDir :: bool
  Stat_IsDir :: "error + bool"
  ReadFromDir :: "error + blockMeta"

fun readMetas :: "dirent list \<Rightarrow> error + blockMeta list" where
  "readMetas [] = Inr []"
| "readMetas (fi # fis) =
     (if \<not> IsBlockDir fi then readMetas fis
      else (case Stat_IsDir fi of
        Inl err \<Rightarrow> Inl (Wrap ''stat block'' err)
      | Inr isDir \<Rightarrow>
          if \<not> isDir then readMetas fis
          else (case ReadFromDir fi of
            Inl err \<Rightarrow> Inl (Wrap ''read metadata for block'' err)
          | Inr m \<Rightarrow> (case readMetas fis of Inl err \<Rightarrow> Inl err | Inr ms \<Rightarrow> Inr (m # ms)))))"

text \<open>
  \<^verbatim>\<open>blockMetasFromOldest\<close>. \<^verbatim>\<open>sort.Slice\<close> does not say in which order it leaves
  blocks of equal \<open>MinTime\<close>; \<open>sort_key\<close> keeps them in directory order.
\<close>

definition blockMetasFromOldest :: "error + dirent list \<Rightarrow> error + blockMeta list" where
  "blockMetasFromOldest readDir =
     (case readDir of
        Inl err \<Rightarrow> Inl (Wrap ''read dir'' err)
      | Inr fis \<Rightarrow>
          (case readMetas fis of
             Inl err \<Rightarrow> Inl err
           | Inr metas \<Rightarrow> Inr (sort_key MinTime metas)))"

text \<open>
  The remote object store (\<^verbatim>\<open>objstore.Bucket\<close>) as far as Sync sees it: the
  set of blocks whose metadata object exists, together with the list of the
  calls made on it.
\<close>

datatype bucket_call = CallExists ulid | CallUpload ulid

record bucket =
  objects :: "ulid set"
  calls :: "bucket_call list"

text \<open>
  What a pass depends on besides the files and the bucket: the clock, the
  listing of the tenant directory, and which calls on the bucket and on the
  file system fail, per block and per file.
\<close>

record env =
  clock :: clock
  ReadDir :: "error + dirent list"
  Exists_err :: "ulid \<Rightarrow> error option"
  Upload_err :: "ulid \<Rightarrow> error option"
  fs_err :: "meta_name \<Rightarrow> fs_faults"

text \<open>
  Modelled from the spec: \<^verbatim>\<open>Bucket.Exists\<close> on the path of a block's metadata
  object is not among the sources. The existence check by object path fails
  with an error, or says whether the object is in the store.
\<close>

definition bucket_Exists :: "env \<Rightarrow> ulid \<Rightarrow> bucket \<Rightarrow> (error + bool) \<times> bucket" where
  "bucket_Exists e u b =
     (case Exists_err e u of
        Some err \<Rightarrow> Inl err
      | None \<Rightarrow> Inr (u \<in> objects b),
      b\<lparr>calls := calls b @ [CallExists u]\<rparr>)"

text \<open>
  Modelled from the spec: \<^verbatim>\<open>block.Upload\<close> is not among the sources. The upload
  of a block fails with an error, leaving no metadata object, or succeeds,
  after which the block's metadata object exists in the store.
\<close>

definition block_Upload :: "env \<Rightarrow> blockMeta \<Rightarrow> bucket \<Rightarrow> error option \<times> bucket" where
  "block_Upload e m b =
     (case Upload_err e (meta_ULID m) of
        Some err \<Rightarrow> (Some err, b\<lparr>calls := calls b @ [CallUpload (meta_ULID m)]\<rparr>)
      | None \<Rightarrow>
          (None, b\<lparr>objects := insert (meta_ULID m) (objects b),
                    calls := calls b @ [CallUpload (meta_ULID m)]\<rparr>))"

text \<open>
  \<^verbatim>\<open>Shipper.upload\<close>. The source tag, the segment file list and the out-of-order
  label that it attaches to the metadata it uploads are not modelled: they do
  not reach \<^verbatim>\<open>Sync\<close>'s result or its record.
\<close>

definition upload :: "env \<Rightarrow> blockMeta \<Rightarrow> bucket \<Rightarrow> error option \<times> bucket" where
  "upload e m b = block_Upload e m b"

section \<open>Shipper.Sync\<close>

text \<open>
  The variables of \<^verbatim>\<open>Sync\<close>'s loop: the record being built (\<^verbatim>\<open>meta\<close>), the two
  counters, the bucket and the number of clock readings made. The Prometheus
  counters and gauges of \<^verbatim>\<open>s.metrics\<close> are not modelled.
\<close>

record sync_state =
  new_meta :: shipperMeta
  shipped :: nat
  uploadErrs :: nat
  remote :: bucket
  ticks :: nat

text \<open>\<^verbatim>\<open>model.Now()\<close> at the \<open>k\<close>-th clock reading.\<close>

definition model_Now :: "clock \<Rightarrow> nat \<Rightarrow> int" where
  "model_Now clk k = TimeFromUnixNano (clk k)"

text \<open>\<^verbatim>\<open>meta.Shipped[id] = t\<close>.\<close>

definition set_Shipped :: "ulid \<Rightarrow> int \<Rightarrow> sync_state \<Rightarrow> sync_state" where
  "set_Shipped u t st = st\<lparr>new_meta := (new_meta st)\<lparr>Shipped := AList.update u t (Shipped (new_meta st))\<rparr>\<rparr>"

text \<open>
  One iteration of the loop over \<^verbatim>\<open>metas\<close>. The first component is the error
  with which \<^verbatim>\<open>Sync\<close> returns from inside the loop, if it does.
\<close>

definition syncBlock ::
  "env \<Rightarrow> (ulid \<rightharpoonup> int) \<Rightarrow> blockMeta \<Rightarrow> sync_state \<Rightarrow> error option \<times> sync_state" where
  "syncBlock e shippedBlocks m st =
     (case shippedBlocks (meta_ULID m) of
        Some shippedTime \<Rightarrow> (None, set_Shipped (meta_ULID m) (TimeFromUnixNano shippedTime) st)
      | None \<Rightarrow>
          if NumSamples m = 0 then (None, st)
          else if Compaction_Level m > 1 then (None, st)
          else
            (case bucket_Exists e (meta_ULID m) (remote st) of
               (Inl err, b) \<Rightarrow> (Some (Wrap ''check exists'' err), st\<lparr>remote := b\<rparr>)
             | (Inr ok, b) \<Rightarrow>
                 if ok then
                   (None, (set_Shipped (meta_ULID m) (model_Now (clock e) (ticks st)) st)
                            \<lparr>shipped := shipped st + 1, remote := b, ticks := Suc (ticks st)\<rparr>)
                 else
                   (case upload e m b of
                      (Some err, b') \<Rightarrow> (None, st\<lparr>uploadErrs := uploadErrs st + 1, remote := b'\<rparr>)
                    | (None, b') \<Rightarrow>
                        (None, (set_Shipped (meta_ULID m) (model_Now (clock e) (ticks st)) st)
                                 \<lparr>shipped := shipped st + 1, remote := b', ticks := Suc (ticks st)\<rparr>))))"

fun syncLoop ::
  "env \<Rightarrow> (ulid \<rightharpoonup> int) \<Rightarrow> blockMeta list \<Rightarrow> sync_state \<Rightarrow> error option \<times> sync_state" where
  "syncLoop e shippedBlocks [] st = (None, st)"
| "syncLoop e shippedBlocks (m # ms) st =
     (case syncBlock e shippedBlocks m st of
        (Some err, st') \<Rightarrow> (Some err, st')
      | (None, st') \<Rightarrow> syncLoop e shippedBlocks ms st')"

text \<open>
  What persists between passes: the tenant directory's two meta files and the
  bucket.
\<close>

record world =
  files :: disk
  store :: bucket

text \<open>
  The start of \<^verbatim>\<open>Sync\<close>: the previously shipped blocks, or an empty map when
  reading them fails (the warning logged is not modelled).
\<close>

definition loadShipped :: "env \<Rightarrow> world \<Rightarrow> (ulid \<rightharpoonup> int) \<times> nat" where
  "loadShipped e w =
     (case readShippedBlocks (clock e) (files w) 0 of
        Inl err \<Rightarrow> (Map.empty, 0)
      | Inr r \<Rightarrow> r)"

definition initial_state :: "world \<Rightarrow> nat \<Rightarrow> sync_state" where
  "initial_state w k =
     \<lparr>new_meta = \<lparr>Version = shipperMetaVersion1, Shipped = []\<rparr>,
      shipped = 0, uploadErrs = 0, remote = store w, ticks = k\<rparr>"

text \<open>
  \<^verbatim>\<open>Sync\<close> up to the end of its loop: an error of \<^verbatim>\<open>blockMetasFromOldest\<close>, or
  what the loop returns.
\<close>

definition syncBlocks :: "env \<Rightarrow> world \<Rightarrow> error + (error option \<times> sync_state)" where
  "syncBlocks e w =
     (case loadShipped e w of
        (shippedBlocks, k) \<Rightarrow>
          (case blockMetasFromOldest (ReadDir e) of
             Inl err \<Rightarrow> Inl err
           | Inr metas \<Rightarrow> Inr (syncLoop e shippedBlocks metas (initial_state w k))))"

text \<open>
  \<^verbatim>\<open>Sync\<close> returns \<^verbatim>\<open>(shipped, err)\<close>; the model returns the world it leaves as
  well. An error of \<^verbatim>\<open>writeShipperMetaFile\<close> is logged only.
\<close>

definition Sync :: "env \<Rightarrow> world \<Rightarrow> (nat \<times> error option) \<times> world" where
  "Sync e w =
     (case syncBlocks e w of
        Inl err \<Rightarrow> ((0, Some err), w)
      | Inr (Some err, st) \<Rightarrow> ((0, Some err), w\<lparr>store := remote st\<rparr>)
      | Inr (None, st) \<Rightarrow>
          (case writeShipperMetaFile (fs_err e) (new_meta st) (files w) of
             (werr, d) \<Rightarrow>
               ((shipped st,
                 if uploadErrs st > 0 then Some (ErrFailedToSync (uploadErrs st)) else None),
                \<lparr>files = d, store = remote st\<rparr>)))"

text \<open>Several passes in a row, each in an environment of its own.\<close>

fun SyncMany :: "env list \<Rightarrow> world \<Rightarrow> world" where
  "SyncMany [] w = w"
| "SyncMany (e # es) w = SyncMany es (snd (Sync e w))"

subsection \<open>Notions the properties of Sync are stated with\<close>

text \<open>
  A block that reaches the existence check: not in the previously shipped
  set, not empty, of compaction level at most 1.
\<close>

definition eligible :: "(ulid \<rightharpoonup> int) \<Rightarrow> blockMeta \<Rightarrow> bool" where
  "eligible shippedBlocks m \<longleftrightarrow>
     shippedBlocks (meta_ULID m) = None \<and> NumSamples m > 0 \<and> Compaction_Level m \<le> 1"

text \<open>
  An eligible block that a pass counts as shipped, given the objects in the
  bucket when the pass starts: its metadata object is there, or its upload
  does not fail. The other eligible blocks are those whose upload fails.
\<close>

definition counted :: "env \<Rightarrow> (ulid \<rightharpoonup> int) \<Rightarrow> ulid set \<Rightarrow> blockMeta \<Rightarrow> bool" where
  "counted e shippedBlocks objs m \<longleftrightarrow>
     eligible shippedBlocks m \<and> (meta_ULID m \<in> objs \<or> Upload_err e (meta_ULID m) = None)"

definition failing :: "env \<Rightarrow> (ulid \<rightharpoonup> int) \<Rightarrow> ulid set \<Rightarrow> blockMeta \<Rightarrow> bool" where
  "failing e shippedBlocks objs m \<longleftrightarrow>
     eligible shippedBlocks m \<and> meta_ULID m \<notin> objs \<and> Upload_err e (meta_ULID m) \<noteq> None"

text \<open>The block identifiers that the two meta files mention, whatever their version.\<close>

definition recorded_ids :: "disk \<Rightarrow> ulid set" where
  "recorded_ids d =
     (case mimir_shipper_json d of Json m \<Rightarrow> fst ` set (Shipped m) | _ \<Rightarrow> {}) \<union>
     (case thanos_shipper_json d of Json m \<Rightarrow> set (Uploaded m) | _ \<Rightarrow> {})"

text \<open>The bucket calls made since the list of calls was \<open>old\<close>.\<close>

definition calls_since :: "bucket_call list \<Rightarrow> bucket \<Rightarrow> bucket_call list" where
  "calls_since old b = drop (length old) (calls b)"

text \<open>The record being built, as a map.\<close>

definition recmap :: "sync_state \<Rightarrow> (ulid \<rightharpoonup> int)" where
  "recmap st = map_of (Shipped (new_meta st))"

section \<open>userTSDB\<close>

datatype tsdbState = active | activeShipping | forceCompacting | closing | closed

datatype tsdbCloseCheckResult =
    tsdbIdle
  | tsdbShippingDisabled
  | tsdbNotIdle
  | tsdbNotCompacted
  | tsdbNotShipped
  | tsdbCheckFailed
  | tsdbCloseFailed
  | tsdbNotActive
  | tsdbDataRemovalFailed
  | tsdbTenantMarkedForDeletion
  | tsdbIdleClosed

definition shouldClose :: "tsdbCloseCheckResult \<Rightarrow> bool" where
  "shouldClose r = (r = tsdbIdle \<or> r = tsdbTenantMarkedForDeletion)"

type_synonym int64 = "64 word"

text \<open>
  Go's \<^verbatim>\<open>/\<close> on \<^verbatim>\<open>int64\<close> for a divisor other than 0: the quotient of the signed
  values truncated towards zero, wrapped to 64 bits (the one quotient that
  wraps is that of the most negative value by -1).
\<close>

definition int64_div :: "int64 \<Rightarrow> int64 \<Rightarrow> int64" where
  "int64_div a b = word_of_int (go_div (sint a) (sint b))"

text \<open>
  What the code reads of a head (\<^verbatim>\<open>tsdb.Head\<close>, or the head of the head-only
  mode) and of a \<^verbatim>\<open>tsdb.DB\<close>: the number of series, the head's time range and
  the identifiers of the blocks on disk.
\<close>

record head =
  head_NumSeries :: nat
  head_MinTime :: int64
  head_MaxTime :: int64

record tsdb_DB =
  db_Head :: head
  db_Blocks :: "ulid list"

text \<open>
  The fields of \<^verbatim>\<open>userTSDB\<close> that the modelled methods use. \<open>head\<close> is
  \<open>Some\<close> in head-only mode (\<^verbatim>\<open>u.head != nil\<close>); \<open>pushesInFlight\<close> is the counter
  of the wait group; \<open>lastUpdate\<close> is in Unix seconds. The cache \<open>shippedBlocks\<close>
  holds the map that \<^verbatim>\<open>readShippedBlocks\<close> returned, of which only the keys are
  read.
\<close>

record userTSDB =
  db :: tsdb_DB
  head :: "head option"
  state :: tsdbState
  pushesInFlight :: nat
  lastUpdate :: int
  deletionMarkFound :: bool
  shippedBlocks :: "ulid \<rightharpoonup> int"

definition HeadNumSeries :: "userTSDB \<Rightarrow> nat" where
  "HeadNumSeries u = (case head u of Some h \<Rightarrow> head_NumSeries h | None \<Rightarrow> head_NumSeries (db_Head (db u)))"

definition Blocks :: "userTSDB \<Rightarrow> ulid list" where
  "Blocks u = (case head u of Some h \<Rightarrow> [] | None \<Rightarrow> db_Blocks (db u))"

definition casState :: "userTSDB \<Rightarrow> tsdbState \<Rightarrow> tsdbState \<Rightarrow> bool \<times> userTSDB" where
  "casState u from to = (if state u \<noteq> from then (False, u) else (True, u\<lparr>state := to\<rparr>))"

subsection \<open>The shipped-block cache and the idle check\<close>

text \<open>
  \<^verbatim>\<open>updateCachedShippedBlocks\<close>, reading the meta files of the directory
  \<^verbatim>\<open>u.db.Dir()\<close>.
\<close>

definition updateCachedShippedBlocks ::
  "clock \<Rightarrow> disk \<Rightarrow> nat \<Rightarrow> userTSDB \<Rightarrow> error option \<times> userTSDB \<times> nat" where
  "updateCachedShippedBlocks clk d k u =
     (if head u \<noteq> None then (None, u, k)
      else (case readShippedBlocks clk d k of
              Inl err \<Rightarrow> (Some err, u, k)
            | Inr (blocks, k') \<Rightarrow> (None, u\<lparr>shippedBlocks := blocks\<rparr>, k')))"

definition getCachedShippedBlocks :: "userTSDB \<Rightarrow> (ulid \<rightharpoonup> int)" where
  "getCachedShippedBlocks u = (if head u \<noteq> None then Map.empty else shippedBlocks u)"

text \<open>The loop of \<^verbatim>\<open>getOldestUnshippedBlockTime\<close> over \<^verbatim>\<open>u.Blocks()\<close>.\<close>

fun oldestUnshipped :: "(ulid \<rightharpoonup> int) \<Rightarrow> ulid list \<Rightarrow> nat \<Rightarrow> nat" where
  "oldestUnshipped cached [] oldestTs = oldestTs"
| "oldestUnshipped cached (b # bs) oldestTs =
     (if cached b \<noteq> None then oldestUnshipped cached bs oldestTs
      else if oldestTs = 0 \<or> ULID_Time b < oldestTs then oldestUnshipped cached bs (ULID_Time b)
      else oldestUnshipped cached bs oldestTs)"

definition getOldestUnshippedBlockTime :: "userTSDB \<Rightarrow> nat" where
  "getOldestUnshippedBlockTime u =
     (if head u \<noteq> None then 0
      else oldestUnshipped (getCachedShippedBlocks u) (Blocks u) 0)"

text \<open>
  \<^verbatim>\<open>isIdle\<close>: \<^verbatim>\<open>time.Unix(lu, 0).Add(idle).Before(now)\<close>, with \<open>now\<close> and \<open>idle\<close>
  in nanoseconds.
\<close>

definition isIdle :: "userTSDB \<Rightarrow> int \<Rightarrow> int \<Rightarrow> bool" where
  "isIdle u now idle = (lastUpdate u * 1000000000 + idle < now)"

text \<open>\<^verbatim>\<open>shouldCloseTSDB\<close>, with the reading of \<^verbatim>\<open>time.Now()\<close> as an argument.\<close>

definition shouldCloseTSDB :: "userTSDB \<Rightarrow> int \<Rightarrow> int \<Rightarrow> tsdbCloseCheckResult" where
  "shouldCloseTSDB u now idleTimeout =
     (if deletionMarkFound u then tsdbTenantMarkedForDeletion
      else if \<not> isIdle u now idleTimeout then tsdbNotIdle
      else if head u \<noteq> None then tsdbIdle
      else if HeadNumSeries u > 0 then tsdbNotCompacted
      else if getOldestUnshippedBlockTime u > 0 then tsdbNotShipped
      else tsdbIdle)"

subsection \<open>The append permit\<close>

definition acquireAppendLock :: "userTSDB \<Rightarrow> error option \<times> userTSDB" where
  "acquireAppendLock u =
     (case state u of
        active \<Rightarrow> (None, u\<lparr>pushesInFlight := pushesInFlight u + 1\<rparr>)
      | activeShipping \<Rightarrow> (None, u\<lparr>pushesInFlight := pushesInFlight u + 1\<rparr>)
      | forceCompacting \<Rightarrow> (Some (ErrNew ''forced compaction in progress''), u)
      | closing \<Rightarrow> (Some (ErrNew ''TSDB is closing''), u)
      | closed \<Rightarrow> (Some (ErrNew ''TSDB is not active''), u))"

subsection \<open>Forced compaction\<close>

text \<open>
  How a call of a Go function ends: it returns, or it panics. \<^verbatim>\<open>compactHead\<close>
  panics when \<^verbatim>\<open>blockDuration\<close> is 0 (integer division by zero).
\<close>

datatype 'a outcome = Return 'a | Panic

text \<open>
  \<^verbatim>\<open>u.db.CompactHead(tsdb.NewRangeHead(h, mint, maxt))\<close> belongs to the storage
  engine: it is a parameter \<open>CH\<close>, giving the error returned and the database
  left for a database and a range.
\<close>

type_synonym compactor = "tsdb_DB \<Rightarrow> int64 \<Rightarrow> int64 \<Rightarrow> error option \<times> tsdb_DB"

text \<open>
  The loop of \<^verbatim>\<open>compactHead\<close> and its last statement, run on the tenant \<open>u\<close>.
  The division is Go's, on 64-bit signed integers (\<open>int64_div\<close>), and the
  arithmetic wraps around. The loop need not end, that depending on the
  storage engine: it runs on fuel, one unit per call of \<open>CH\<close>, and \<open>None\<close> is a
  run that has not returned within the fuel. The third component lists the
  calls of \<^verbatim>\<open>u.db.CompactHead\<close> in order: the state of the tenant, which a
  concurrent \<^verbatim>\<open>acquireAppendLock\<close> would read, when the call is made, and the
  range compacted.
\<close>

type_synonym compaction = "tsdbState \<times> int64 \<times> int64"

fun compactLoop ::
  "compactor \<Rightarrow> int64 \<Rightarrow> nat \<Rightarrow> userTSDB \<Rightarrow> compaction list \<Rightarrow>
     (error option outcome \<times> userTSDB \<times> compaction list) option" where
  "compactLoop CH blockDuration 0 u trace = None"
| "compactLoop CH blockDuration (Suc fuel) u trace =
     (let minTime = head_MinTime (db_Head (db u)); maxTime = head_MaxTime (db_Head (db u)) in
      if blockDuration = 0 then Some (Panic, u, trace)
      else if int64_div minTime blockDuration * blockDuration \<noteq> int64_div maxTime blockDuration * blockDuration
      then
        (let blockMaxTime = (int64_div minTime blockDuration + 1) * blockDuration - 1 in
         case CH (db u) minTime blockMaxTime of
           (Some err, d') \<Rightarrow>
             Some (Return (Some err), u\<lparr>db := d'\<rparr>, trace @ [(state u, minTime, blockMaxTime)])
         | (None, d') \<Rightarrow>
             compactLoop CH blockDuration fuel (u\<lparr>db := d'\<rparr>)
               (trace @ [(state u, minTime, blockMaxTime)]))
      else
        (case CH (db u) minTime maxTime of
           (err, d') \<Rightarrow> Some (Return err, u\<lparr>db := d'\<rparr>, trace @ [(state u, minTime, maxTime)])))"

text \<open>
  \<^verbatim>\<open>compactHead\<close>. \<^verbatim>\<open>u.pushesInFlight.Wait()\<close> returns once the counter is 0; in
  this sequential model nothing else releases a permit, so with a counter
  above 0 the call does not return. The deferred \<^verbatim>\<open>casState\<close> runs when the
  function returns or panics.
\<close>

definition compactHead ::
  "compactor \<Rightarrow> int64 \<Rightarrow> nat \<Rightarrow> userTSDB \<Rightarrow>
     (error option outcome \<times> userTSDB \<times> compaction list) option" where
  "compactHead CH blockDuration fuel u =
     (if head u \<noteq> None then Some (Return None, u, [])
      else
        (case casState u active forceCompacting of
           (False, u1) \<Rightarrow>
             Some (Return (Some (ErrNew ''TSDB head cannot be compacted because it is not in active state (possibly being closed or blocks shipping in progress)'')), u1, [])
         | (True, u1) \<Rightarrow>
             if pushesInFlight u1 \<noteq> 0 then None
             else
               (case compactLoop CH blockDuration fuel u1 [] of
                  None \<Rightarrow> None
                | Some (r, u2, trace) \<Rightarrow>
                    Some (r, snd (casState u2 forceCompacting active), trace))))"

section \<open>The windows of a forced compaction, as the specification words them\<close>

text \<open>
  The specification's description of the forced compaction: while the head's
  minimum and maximum time fall into different alignment buckets, each being
  the time divided by the block duration and multiplied by it again, compact
  the sub-range from the minimum time to the aligned boundary minus one, the
  boundary being the next multiple of the block duration; then read the
  minimum and maximum again and repeat; finally compact the remaining range.
  \<open>split_windows CH blockDuration d ranges err d'\<close> says that, from the
  database \<open>d\<close>, this compacts the ranges \<open>ranges\<close> in that order and ends
  with the error \<open>err\<close> (none on success) and the database \<open>d'\<close>; a failed
  compaction ends it at once.
\<close>

definition alignment_bucket :: "int64 \<Rightarrow> int64 \<Rightarrow> int64" where
  "alignment_bucket blockDuration t = int64_div t blockDuration * blockDuration"

definition aligned_boundary :: "int64 \<Rightarrow> int64 \<Rightarrow> int64" where
  "aligned_boundary blockDuration t = (int64_div t blockDuration + 1) * blockDuration"

inductive split_windows ::
  "compactor \<Rightarrow> int64 \<Rightarrow> tsdb_DB \<Rightarrow> (int64 \<times> int64) list \<Rightarrow> error option \<Rightarrow> tsdb_DB \<Rightarrow> bool"
  for CH :: compactor and blockDuration :: int64 where
  remaining:
    "alignment_bucket blockDuration (head_MinTime (db_Head d)) =
       alignment_bucket blockDuration (head_MaxTime (db_Head d)) \<Longrightarrow>
     CH d (head_MinTime (db_Head d)) (head_MaxTime (db_Head d)) = (err, d') \<Longrightarrow>
     split_windows CH blockDuration d
       [(head_MinTime (db_Head d), head_MaxTime (db_Head d))] err d'"
| window_failed:
    "alignment_bucket blockDuration (head_MinTime (db_Head d)) \<noteq>
       alignment_bucket blockDuration (head_MaxTime (db_Head d)) \<Longrightarrow>
     CH d (head_MinTime (db_Head d))
          (aligned_boundary blockDuration (head_MinTime (db_Head d)) - 1) = (Some err, d') \<Longrightarrow>
     split_windows CH blockDuration d
       [(head_MinTime (db_Head d), aligned_boundary blockDuration (head_MinTime (db_Head d)) - 1)]
       (Some err) d'"
| window:
    "alignment_bucket blockDuration (head_MinTime (db_Head d)) \<noteq>
       alignment_bucket blockDuration (head_MaxTime (db_Head d)) \<Longrightarrow>
     CH d (head_MinTime (db_Head d))
          (aligned_boundary blockDuration (head_MinTime (db_Head d)) - 1) = (None, d') \<Longrightarrow>
     split_windows CH blockDuration d' ranges err d'' \<Longrightarrow>
     split_windows CH blockDuration d
       ((head_MinTime (db_Head d), aligned_boundary blockDuration (head_MinTime (db_Head d)) - 1) # ranges)
       err d''"

code_pred split_windows .

section \<open>Inputs for the witnesses and counterexamples\<close>

text \<open>
  Four tenant directories: a valid current-format file beside an undecodable
  legacy file; a current-format file of another version beside a valid
  legacy file; no file at all; no current-format file and an undecodable
  legacy file.
\<close>

definition disk_current :: disk where
  "disk_current = \<lparr>mimir_shipper_json = Json \<lparr>Version = 1, Shipped = [(ULID 100 1, 1700000000000)]\<rparr>,
                   thanos_shipper_json = Garbage ''{''\<rparr>"

definition disk_legacy :: disk where
  "disk_legacy = \<lparr>mimir_shipper_json = Json \<lparr>Version = 2, Shipped = []\<rparr>,
                  thanos_shipper_json = Json \<lparr>thanos_Version = 1, Uploaded = [ULID 100 1, ULID 200 2]\<rparr>\<rparr>"

definition disk_first_run :: disk where
  "disk_first_run = \<lparr>mimir_shipper_json = Absent, thanos_shipper_json = Absent\<rparr>"

definition disk_legacy_corrupt :: disk where
  "disk_legacy_corrupt = \<lparr>mimir_shipper_json = Absent, thanos_shipper_json = Garbage ''{''\<rparr>"

text \<open>
  Five local blocks (the last two are an empty block and a block of compaction
  level 2), the directory entry of a block, an environment in which nothing
  fails, and a tenant that has never shipped, with an empty bucket.
\<close>

definition blockA :: blockMeta where
  "blockA = \<lparr>meta_ULID = ULID 1001 1, MinTime = 50, NumSamples = 10, Compaction_Level = 1\<rparr>"

definition blockB :: blockMeta where
  "blockB = \<lparr>meta_ULID = ULID 1002 2, MinTime = 100, NumSamples = 20, Compaction_Level = 1\<rparr>"

definition blockC :: blockMeta where
  "blockC = \<lparr>meta_ULID = ULID 1003 3, MinTime = 200, NumSamples = 30, Compaction_Level = 1\<rparr>"

definition blockEmpty :: blockMeta where
  "blockEmpty = \<lparr>meta_ULID = ULID 1004 4, MinTime = 300, NumSamples = 0, Compaction_Level = 1\<rparr>"

definition blockLevel2 :: blockMeta where
  "blockLevel2 = \<lparr>meta_ULID = ULID 1005 5, MinTime = 400, NumSamples = 40, Compaction_Level = 2\<rparr>"

definition block_dir :: "blockMeta \<Rightarrow> dirent" where
  "block_dir m = \<lparr>IsBlockDir = True, Stat_IsDir = Inr True, ReadFromDir = Inr m\<rparr>"

definition env_ok :: "blockMeta list \<Rightarrow> env" where
  "env_ok ms =
     \<lparr>clock = (\<lambda>k. 5000000 + 1000000 * int k), ReadDir = Inr (map block_dir ms),
      Exists_err = (\<lambda>u. None), Upload_err = (\<lambda>u. None), fs_err = (\<lambda>n op. None)\<rparr>"

definition world_new :: world where
  "world_new = \<lparr>files = disk_first_run, store = \<lparr>objects = {}, calls = []\<rparr>\<rparr>"

text \<open>
  Environments with one fault each: the existence check of block B, or of
  block C, fails; the upload of block B fails; the temporary file of the
  current-format meta file cannot be created. And a world whose bucket holds
  block A already.
\<close>

definition env_check_fails :: env where
  "env_check_fails =
     (env_ok [blockB, blockA])
       \<lparr>Exists_err := (\<lambda>u. if u = ULID 1002 2 then Some (ErrOther ''timeout'') else None)\<rparr>"

definition world_uploaded_A :: world where
  "world_uploaded_A = \<lparr>files = disk_first_run, store = \<lparr>objects = {ULID 1001 1}, calls = []\<rparr>\<rparr>"

definition env_second_check_fails :: env where
  "env_second_check_fails =
     (env_ok [blockA, blockC])
       \<lparr>Exists_err := (\<lambda>u. if u = ULID 1003 3 then Some (ErrOther ''timeout'') else None)\<rparr>"

definition env_B_fails :: env where
  "env_B_fails =
     (env_ok [blockA, blockB, blockC])
       \<lparr>Upload_err := (\<lambda>u. if u = ULID 1002 2 then Some (ErrOther ''upload failed'') else None)\<rparr>"






definition env_mixed :: env where
  "env_mixed = env_ok [blockLevel2, blockB, blockEmpty, blockA]"

text \<open>
  Two storage engines: one whose compaction of a range drops that range from
  the head, one whose compaction always fails. And four tenants: one with
  data from 1500 to 5200 in its head; the same in head-only mode while it is
  being closed; one with an empty head and a single local block that
  has not been shipped; the same with a block whose ULID carries the
  timestamp 0.
\<close>

definition compact_drop :: compactor where
  "compact_drop d mint maxt =
     (None,
      d\<lparr>db_Head := (db_Head d)\<lparr>head_MinTime :=
           (if maxt < head_MaxTime (db_Head d) then maxt + 1 else head_MaxTime (db_Head d))\<rparr>\<rparr>)"

definition compact_fails :: compactor where
  "compact_fails d mint maxt = (Some (ErrOther ''compaction failed''), d)"

definition tenant :: userTSDB where
  "tenant =
     \<lparr>db = \<lparr>db_Head = \<lparr>head_NumSeries = 3, head_MinTime = 1500, head_MaxTime = 5200\<rparr>,
            db_Blocks = []\<rparr>,
      head = None, state = active, pushesInFlight = 0, lastUpdate = 1000,
      deletionMarkFound = False, shippedBlocks = Map.empty\<rparr>"

definition tenant_head_only :: userTSDB where
  "tenant_head_only =
     tenant\<lparr>head := Some \<lparr>head_NumSeries = 3, head_MinTime = 1500, head_MaxTime = 5200\<rparr>,
            state := closing\<rparr>"

definition tenant_epoch_block :: userTSDB where
  "tenant_epoch_block =
     tenant\<lparr>db := \<lparr>db_Head = \<lparr>head_NumSeries = 0, head_MinTime = 0, head_MaxTime = 0\<rparr>,
                   db_Blocks = [ULID 0 7]\<rparr>\<rparr>"

definition tenant_unshipped :: userTSDB where
  "tenant_unshipped =
     tenant\<lparr>db := \<lparr>db_Head = \<lparr>head_NumSeries = 0, head_MinTime = 0, head_MaxTime = 0\<rparr>,
                   db_Blocks = [ULID 1001 1]\<rparr>\<rparr>"

section \<open>Facts for evaluating the definitions on the inputs above\<close>

lemmas Sync_eval =
  Sync_def syncBlocks_def loadShipped_def readShippedBlocks_def readShipperMetaFile_def
  readThanosShippedBlocks_def readThanosShipperMetaFile_def blockMetasFromOldest_def
  initial_state_def syncBlock_def bucket_Exists_def upload_def block_Upload_def set_Shipped_def model_Now_def
  TimeFromUnixNano_def go_div_def model_Time_Time_def
  writeShipperMetaFile_def writeTmp_def renameFile_def writeThanosShipperMetaFile_def
  shipperMetaVersion1_def eligible_def counted_def failing_def calls_since_def

lemmas example_defs =
  blockA_def blockB_def blockC_def blockEmpty_def blockLevel2_def block_dir_def env_ok_def
  world_new_def disk_first_run_def

section \<open>Reading the previously shipped blocks\<close>

lemma stampUploaded_dom: "dom (fst (stampUploaded clk ids m k)) = dom m \<union> set ids"
  by (induction ids arbitrary: m k) auto

lemma stampUploaded_ticks: "snd (stampUploaded clk ids m k) = k + length ids"
  by (induction ids arbitrary: m k) auto

lemma readThanos_not_exist:
  "is_ErrNotExist err \<Longrightarrow> readThanosShipperMetaFile d = Inl err \<Longrightarrow> thanos_shipper_json d = Absent"
  by (auto simp: readThanosShipperMetaFile_def split: stored.splits if_splits)

lemma readShippedBlocks_falls_back:
  assumes "\<forall>m. mimir_shipper_json d = Json m \<longrightarrow> Version m \<noteq> 1"
  shows "readShippedBlocks clk d k = readThanosShippedBlocks clk d k"
  using assms
  by (cases "mimir_shipper_json d")
    (simp_all add: readShippedBlocks_def readShipperMetaFile_def shipperMetaVersion1_def)

lemma loadShipped_read_error:
  "readShippedBlocks (clock e) (files w) 0 = Inl err \<Longrightarrow> loadShipped e w = (Map.empty, 0)"
  by (simp add: loadShipped_def)

text \<open>
  C3, as amended, in terms of what the tenant directory holds.
  \<^verbatim>\<open>readShippedBlocks\<close> reads the current-format file first and returns its
  map when the file is there, decodes and has version 1, whatever the legacy
  file holds. In every other case (no current-format file, an unreadable
  one, one that does not decode, one of another version) it does what
  \<^verbatim>\<open>readThanosShippedBlocks\<close> does with the legacy file: an absent legacy
  file gives the empty map; a legacy file of version 1 gives its blocks, each
  stamped with a clock reading; a legacy file that is unreadable, does not
  decode or has another version makes \<^verbatim>\<open>readShippedBlocks\<close> return the error
  of that read to its caller. \<^verbatim>\<open>updateCachedShippedBlocks\<close> returns that
  error in turn, leaving the cache as it was, and \<^verbatim>\<open>Sync\<close> goes on with an
  empty set of previously shipped blocks.
\<close>

theorem readShippedBlocks_fallback_chain:
  "(mimir_shipper_json d = Json m \<and> Version m = 1 \<longrightarrow>
      readShippedBlocks clk d k = Inr (map_option model_Time_Time \<circ> map_of (Shipped m), k)) \<and>
   ((\<forall>m. mimir_shipper_json d = Json m \<longrightarrow> Version m \<noteq> 1) \<longrightarrow>
      readShippedBlocks clk d k = readThanosShippedBlocks clk d k) \<and>
   ((\<forall>m. mimir_shipper_json d = Json m \<longrightarrow> Version m \<noteq> 1) \<and> thanos_shipper_json d = Absent \<longrightarrow>
      readShippedBlocks clk d k = Inr (Map.empty, k)) \<and>
   ((\<forall>m. mimir_shipper_json d = Json m \<longrightarrow> Version m \<noteq> 1) \<and>
    thanos_shipper_json d = Json t \<and> thanos_Version t = 1 \<longrightarrow>
      (\<exists>blocks. readShippedBlocks clk d k = Inr (blocks, k + length (Uploaded t)) \<and>
                dom blocks = set (Uploaded t))) \<and>
   ((\<forall>m. mimir_shipper_json d = Json m \<longrightarrow> Version m \<noteq> 1) \<and>
    (thanos_shipper_json d = Unreadable msg \<and> err = Wrap ''failed to read'' (ErrOther msg) \<or>
     thanos_shipper_json d = Garbage msg \<and> err = Wrap ''failed to parse as JSON'' (ErrOther msg) \<or>
     thanos_shipper_json d = Json t \<and> thanos_Version t \<noteq> 1 \<and> err = ErrVersion (thanos_Version t)) \<longrightarrow>
      readShippedBlocks clk d k = Inl err \<and>
      (head u = None \<longrightarrow> updateCachedShippedBlocks clk d k u = (Some err, u, k)) \<and>
      (files w = d \<longrightarrow>
         loadShipped e w = (Map.empty, 0) \<and>
         syncBlocks e w =
           (case blockMetasFromOldest (ReadDir e) of
              Inl lerr \<Rightarrow> Inl lerr
            | Inr metas \<Rightarrow> Inr (syncLoop e Map.empty metas (initial_state w 0)))))"
proof (intro conjI impI)
  assume "mimir_shipper_json d = Json m \<and> Version m = 1"
  then show "readShippedBlocks clk d k = Inr (map_option model_Time_Time \<circ> map_of (Shipped m), k)"
    by (simp add: readShippedBlocks_def readShipperMetaFile_def shipperMetaVersion1_def)
next
  assume "\<forall>m. mimir_shipper_json d = Json m \<longrightarrow> Version m \<noteq> 1"
  then show "readShippedBlocks clk d k = readThanosShippedBlocks clk d k"
    by (rule readShippedBlocks_falls_back)
next
  assume a: "(\<forall>m. mimir_shipper_json d = Json m \<longrightarrow> Version m \<noteq> 1) \<and> thanos_shipper_json d = Absent"
  then have "readShippedBlocks clk d k = readThanosShippedBlocks clk d k"
    by (simp add: readShippedBlocks_falls_back)
  with a show "readShippedBlocks clk d k = Inr (Map.empty, k)"
    by (simp add: readThanosShippedBlocks_def readThanosShipperMetaFile_def)
next
  assume a: "(\<forall>m. mimir_shipper_json d = Json m \<longrightarrow> Version m \<noteq> 1) \<and>
    thanos_shipper_json d = Json t \<and> thanos_Version t = 1"
  then have "readShippedBlocks clk d k = readThanosShippedBlocks clk d k"
    by (simp add: readShippedBlocks_falls_back)
  with a have "readShippedBlocks clk d k = Inr (stampUploaded clk (Uploaded t) Map.empty k)"
    by (simp add: readThanosShippedBlocks_def readThanosShipperMetaFile_def shipperMetaVersion1_def)
  then show "\<exists>blocks. readShippedBlocks clk d k = Inr (blocks, k + length (Uploaded t)) \<and>
                dom blocks = set (Uploaded t)"
    using stampUploaded_dom [of clk "Uploaded t" Map.empty k]
      stampUploaded_ticks [of clk "Uploaded t" Map.empty k]
    by (cases "stampUploaded clk (Uploaded t) Map.empty k") simp
next
  assume a: "(\<forall>m. mimir_shipper_json d = Json m \<longrightarrow> Version m \<noteq> 1) \<and>
    (thanos_shipper_json d = Unreadable msg \<and> err = Wrap ''failed to read'' (ErrOther msg) \<or>
     thanos_shipper_json d = Garbage msg \<and> err = Wrap ''failed to parse as JSON'' (ErrOther msg) \<or>
     thanos_shipper_json d = Json t \<and> thanos_Version t \<noteq> 1 \<and> err = ErrVersion (thanos_Version t))"
  then have fb: "readShippedBlocks clk' d k' = readThanosShippedBlocks clk' d k'" for clk' k'
    by (simp add: readShippedBlocks_falls_back)
  from a have th: "readThanosShippedBlocks clk' d k' = Inl err" for clk' k'
    by (auto simp: readThanosShippedBlocks_def readThanosShipperMetaFile_def shipperMetaVersion1_def)
  from fb th show r: "readShippedBlocks clk d k = Inl err" by simp
  {
    assume "head u = None"
    with r show "updateCachedShippedBlocks clk d k u = (Some err, u, k)"
      by (simp add: updateCachedShippedBlocks_def)
  }
  {
    assume w: "files w = d"
    with fb th have "readShippedBlocks (clock e) (files w) 0 = Inl err" by simp
    then show l: "loadShipped e w = (Map.empty, 0)" by (rule loadShipped_read_error)
    then show "syncBlocks e w =
           (case blockMetasFromOldest (ReadDir e) of
              Inl lerr \<Rightarrow> Inl lerr
            | Inr metas \<Rightarrow> Inr (syncLoop e Map.empty metas (initial_state w 0)))"
      by (simp add: syncBlocks_def)
  }
qed

text \<open>
  The theorem at the four directories above, at two more whose legacy file is
  unreadable or of version 2, and on a pass of \<^verbatim>\<open>Sync\<close> over block A in the
  directory with the undecodable legacy file: the pass uploads the block.
\<close>

theorem readShippedBlocks_fallback_chain_witness:
  "readShippedBlocks (\<lambda>k. 5) disk_current 0 =
     Inr (map_option model_Time_Time \<circ> map_of [(ULID 100 1, 1700000000000)], 0) \<and>
   readShippedBlocks (\<lambda>k. 5) disk_first_run 0 = Inr (Map.empty, 0) \<and>
   (\<exists>blocks. readShippedBlocks (\<lambda>k. 5) disk_legacy 0 = Inr (blocks, 2) \<and>
      dom blocks = {ULID 100 1, ULID 200 2}) \<and>
   readShippedBlocks (\<lambda>k. 5) disk_legacy_corrupt 0 =
     Inl (Wrap ''failed to parse as JSON'' (ErrOther ''{'')) \<and>
   updateCachedShippedBlocks (\<lambda>k. 5) disk_legacy_corrupt 0 tenant =
     (Some (Wrap ''failed to parse as JSON'' (ErrOther ''{'')), tenant, 0) \<and>
   readShippedBlocks (\<lambda>k. 5)
       \<lparr>mimir_shipper_json = Garbage ''x'', thanos_shipper_json = Unreadable ''permission denied''\<rparr> 0 =
     Inl (Wrap ''failed to read'' (ErrOther ''permission denied'')) \<and>
   readShippedBlocks (\<lambda>k. 5)
       \<lparr>mimir_shipper_json = Unreadable ''permission denied'',
        thanos_shipper_json = Json \<lparr>thanos_Version = 2, Uploaded = [ULID 100 1]\<rparr>\<rparr> 0 =
     Inl (ErrVersion 2) \<and>
   loadShipped (env_ok [blockA]) (world_new\<lparr>files := disk_legacy_corrupt\<rparr>) = (Map.empty, 0) \<and>
   syncBlocks (env_ok [blockA]) (world_new\<lparr>files := disk_legacy_corrupt\<rparr>) =
     Inr (syncLoop (env_ok [blockA]) Map.empty [blockA]
            (initial_state (world_new\<lparr>files := disk_legacy_corrupt\<rparr>) 0)) \<and>
   fst (Sync (env_ok [blockA]) (world_new\<lparr>files := disk_legacy_corrupt\<rparr>)) = (1, None)"
proof -
  let ?unreadable = "\<lparr>mimir_shipper_json = Garbage ''x'',
      thanos_shipper_json = Unreadable ''permission denied''\<rparr>"
  let ?version2 = "\<lparr>mimir_shipper_json = Unreadable ''permission denied'',
      thanos_shipper_json = Json \<lparr>thanos_Version = 2, Uploaded = [ULID 100 1]\<rparr>\<rparr>"
  let ?w = "world_new\<lparr>files := disk_legacy_corrupt\<rparr>"
  have h1: "mimir_shipper_json disk_current = Json \<lparr>Version = 1, Shipped = [(ULID 100 1, 1700000000000)]\<rparr> \<and>
      Version \<lparr>Version = 1, Shipped = [(ULID 100 1, 1700000000000)]\<rparr> = 1"
    by (simp add: disk_current_def)
  have h2: "(\<forall>m. mimir_shipper_json disk_first_run = Json m \<longrightarrow> Version m \<noteq> 1) \<and>
      thanos_shipper_json disk_first_run = Absent"
    by (simp add: disk_first_run_def)
  have h3: "(\<forall>m. mimir_shipper_json disk_legacy = Json m \<longrightarrow> Version m \<noteq> 1) \<and>
      thanos_shipper_json disk_legacy = Json \<lparr>thanos_Version = 1, Uploaded = [ULID 100 1, ULID 200 2]\<rparr> \<and>
      thanos_Version \<lparr>thanos_Version = 1, Uploaded = [ULID 100 1, ULID 200 2]\<rparr> = 1"
    by (auto simp: disk_legacy_def)
  have h4: "(\<forall>m. mimir_shipper_json disk_legacy_corrupt = Json m \<longrightarrow> Version m \<noteq> 1) \<and>
      thanos_shipper_json disk_legacy_corrupt = Garbage ''{''"
    by (simp add: disk_legacy_corrupt_def)
  have h5: "(\<forall>m. mimir_shipper_json ?unreadable = Json m \<longrightarrow> Version m \<noteq> 1) \<and>
      thanos_shipper_json ?unreadable = Unreadable ''permission denied''"
    by simp
  have h6: "(\<forall>m. mimir_shipper_json ?version2 = Json m \<longrightarrow> Version m \<noteq> 1) \<and>
      thanos_shipper_json ?version2 = Json \<lparr>thanos_Version = 2, Uploaded = [ULID 100 1]\<rparr> \<and>
      thanos_Version \<lparr>thanos_Version = 2, Uploaded = [ULID 100 1]\<rparr> \<noteq> 1"
    by simp
  have ht: "head tenant = None" by (simp add: tenant_def)
  have hw: "files ?w = disk_legacy_corrupt" by simp
  have listing: "blockMetasFromOldest (ReadDir (env_ok [blockA])) = Inr [blockA]"
    by (simp add: Sync_eval example_defs)
  have sync: "fst (Sync (env_ok [blockA]) ?w) = (1, None)"
    by (simp add: Sync_eval example_defs disk_legacy_corrupt_def)
  from h1 readShippedBlocks_fallback_chain [of disk_current
      "\<lparr>Version = 1, Shipped = [(ULID 100 1, 1700000000000)]\<rparr>" "\<lambda>k. 5" 0]
  have c1: "readShippedBlocks (\<lambda>k. 5) disk_current 0 =
     Inr (map_option model_Time_Time \<circ> map_of [(ULID 100 1, 1700000000000)], 0)"
    by simp
  from h2 readShippedBlocks_fallback_chain [of disk_first_run _ "\<lambda>k. 5" 0]
  have c2: "readShippedBlocks (\<lambda>k. 5) disk_first_run 0 = Inr (Map.empty, 0)"
    by blast
  from h3 readShippedBlocks_fallback_chain [of disk_legacy _ "\<lambda>k. 5" 0
      "\<lparr>thanos_Version = 1, Uploaded = [ULID 100 1, ULID 200 2]\<rparr>"]
  have "\<exists>blocks. readShippedBlocks (\<lambda>k. 5) disk_legacy 0 =
      Inr (blocks, 0 + length (Uploaded \<lparr>thanos_Version = 1, Uploaded = [ULID 100 1, ULID 200 2]\<rparr>)) \<and>
      dom blocks = set (Uploaded \<lparr>thanos_Version = 1, Uploaded = [ULID 100 1, ULID 200 2]\<rparr>)"
    by blast
  then have c3: "\<exists>blocks. readShippedBlocks (\<lambda>k. 5) disk_legacy 0 = Inr (blocks, 2) \<and>
      dom blocks = {ULID 100 1, ULID 200 2}"
    by (simp add: numeral_2_eq_2)
  from h4 ht hw readShippedBlocks_fallback_chain [of disk_legacy_corrupt _ "\<lambda>k. 5" 0 _ "''{''"
      "Wrap ''failed to parse as JSON'' (ErrOther ''{'')" tenant ?w "env_ok [blockA]"]
  have c4: "readShippedBlocks (\<lambda>k. 5) disk_legacy_corrupt 0 =
      Inl (Wrap ''failed to parse as JSON'' (ErrOther ''{'')) \<and>
    updateCachedShippedBlocks (\<lambda>k. 5) disk_legacy_corrupt 0 tenant =
      (Some (Wrap ''failed to parse as JSON'' (ErrOther ''{'')), tenant, 0) \<and>
    loadShipped (env_ok [blockA]) ?w = (Map.empty, 0) \<and>
    syncBlocks (env_ok [blockA]) ?w =
      (case blockMetasFromOldest (ReadDir (env_ok [blockA])) of
         Inl lerr \<Rightarrow> Inl lerr
       | Inr metas \<Rightarrow> Inr (syncLoop (env_ok [blockA]) Map.empty metas (initial_state ?w 0)))"
    by blast
  with listing have c4': "syncBlocks (env_ok [blockA]) ?w =
      Inr (syncLoop (env_ok [blockA]) Map.empty [blockA] (initial_state ?w 0))"
    by simp
  from h5 readShippedBlocks_fallback_chain [of ?unreadable _ "\<lambda>k. 5" 0 _ "''permission denied''"
      "Wrap ''failed to read'' (ErrOther ''permission denied'')"]
  have c5: "readShippedBlocks (\<lambda>k. 5) ?unreadable 0 =
      Inl (Wrap ''failed to read'' (ErrOther ''permission denied''))"
    by blast
  have he: "ErrVersion 2 = ErrVersion (thanos_Version \<lparr>thanos_Version = 2, Uploaded = [ULID 100 1]\<rparr>)"
    by simp
  from h6 he readShippedBlocks_fallback_chain [of ?version2 _ "\<lambda>k. 5" 0
      "\<lparr>thanos_Version = 2, Uploaded = [ULID 100 1]\<rparr>" _ "ErrVersion 2"]
  have c6: "readShippedBlocks (\<lambda>k. 5) ?version2 0 = Inl (ErrVersion 2)"
    by blast
  from c1 c2 c3 c4 c4' c5 c6 sync show ?thesis by blast
qed

text \<open>
  C3 as stated fails: with no current-format file and an undecodable legacy
  file the read returns an error to its caller.
\<close>

theorem readShippedBlocks_error_counterexample:
  "readShippedBlocks (\<lambda>k. 0) disk_legacy_corrupt 0 = Inl (Wrap ''failed to parse as JSON'' (ErrOther ''{''))"
  by (simp add: readShippedBlocks_def readThanosShippedBlocks_def readShipperMetaFile_def
      readThanosShipperMetaFile_def disk_legacy_corrupt_def)

section \<open>The loop of Sync\<close>

lemma recmap_set_Shipped: "recmap (set_Shipped u t st) = (recmap st)(u \<mapsto> t)"
  by (simp add: recmap_def set_Shipped_def AList.update_conv')

lemma set_Shipped_fields [simp]:
  "shipped (set_Shipped u t st) = shipped st"
  "uploadErrs (set_Shipped u t st) = uploadErrs st"
  "remote (set_Shipped u t st) = remote st"
  "ticks (set_Shipped u t st) = ticks st"
  "Version (new_meta (set_Shipped u t st)) = Version (new_meta st)"
  by (simp_all add: set_Shipped_def)

lemma recmap_updates [simp]:
  "recmap (st\<lparr>shipped := a\<rparr>) = recmap st"
  "recmap (st\<lparr>uploadErrs := b\<rparr>) = recmap st"
  "recmap (st\<lparr>remote := c\<rparr>) = recmap st"
  "recmap (st\<lparr>ticks := d\<rparr>) = recmap st"
  by (simp_all add: recmap_def)

text \<open>The six ways through the loop body.\<close>

lemma syncBlock_carried:
  "prev (meta_ULID m) = Some t \<Longrightarrow>
   syncBlock e prev m st = (None, set_Shipped (meta_ULID m) (TimeFromUnixNano t) st)"
  by (simp add: syncBlock_def)

lemma syncBlock_skipped:
  "prev (meta_ULID m) = None \<Longrightarrow> \<not> eligible prev m \<Longrightarrow>
   syncBlock e prev m st = (None, st)"
  by (auto simp: syncBlock_def eligible_def)

lemma syncBlock_exists_err:
  "eligible prev m \<Longrightarrow> Exists_err e (meta_ULID m) = Some err \<Longrightarrow>
   syncBlock e prev m st =
     (Some (Wrap ''check exists'' err),
      st\<lparr>remote := (remote st)\<lparr>calls := calls (remote st) @ [CallExists (meta_ULID m)]\<rparr>\<rparr>)"
  by (simp add: syncBlock_def eligible_def bucket_Exists_def)

lemma syncBlock_found:
  "eligible prev m \<Longrightarrow> Exists_err e (meta_ULID m) = None \<Longrightarrow>
   meta_ULID m \<in> objects (remote st) \<Longrightarrow>
   syncBlock e prev m st =
     (None, (set_Shipped (meta_ULID m) (model_Now (clock e) (ticks st)) st)
        \<lparr>shipped := shipped st + 1,
         remote := (remote st)\<lparr>calls := calls (remote st) @ [CallExists (meta_ULID m)]\<rparr>,
         ticks := Suc (ticks st)\<rparr>)"
  by (simp add: syncBlock_def eligible_def bucket_Exists_def)

lemma syncBlock_upload_failed:
  "eligible prev m \<Longrightarrow> Exists_err e (meta_ULID m) = None \<Longrightarrow>
   meta_ULID m \<notin> objects (remote st) \<Longrightarrow> Upload_err e (meta_ULID m) = Some err \<Longrightarrow>
   syncBlock e prev m st =
     (None, st\<lparr>uploadErrs := uploadErrs st + 1,
        remote := (remote st)\<lparr>calls := calls (remote st) @ [CallExists (meta_ULID m), CallUpload (meta_ULID m)]\<rparr>\<rparr>)"
  by (simp add: syncBlock_def eligible_def bucket_Exists_def upload_def block_Upload_def)

lemma syncBlock_uploaded:
  "eligible prev m \<Longrightarrow> Exists_err e (meta_ULID m) = None \<Longrightarrow>
   meta_ULID m \<notin> objects (remote st) \<Longrightarrow> Upload_err e (meta_ULID m) = None \<Longrightarrow>
   syncBlock e prev m st =
     (None, (set_Shipped (meta_ULID m) (model_Now (clock e) (ticks st)) st)
        \<lparr>shipped := shipped st + 1,
         remote := \<lparr>objects = insert (meta_ULID m) (objects (remote st)),
                    calls = calls (remote st) @ [CallExists (meta_ULID m), CallUpload (meta_ULID m)]\<rparr>,
         ticks := Suc (ticks st)\<rparr>)"
  by (simp add: syncBlock_def eligible_def bucket_Exists_def upload_def block_Upload_def)

lemma syncBlock_cases [case_names carried skipped exists_err found upload_failed uploaded]:
  obtains
    t where "prev (meta_ULID m) = Some t"
      "syncBlock e prev m st = (None, set_Shipped (meta_ULID m) (TimeFromUnixNano t) st)"
  | "prev (meta_ULID m) = None" "\<not> eligible prev m" "syncBlock e prev m st = (None, st)"
  | err where "eligible prev m" "Exists_err e (meta_ULID m) = Some err"
      "syncBlock e prev m st =
         (Some (Wrap ''check exists'' err),
          st\<lparr>remote := (remote st)\<lparr>calls := calls (remote st) @ [CallExists (meta_ULID m)]\<rparr>\<rparr>)"
  | "eligible prev m" "Exists_err e (meta_ULID m) = None" "meta_ULID m \<in> objects (remote st)"
      "syncBlock e prev m st =
         (None, (set_Shipped (meta_ULID m) (model_Now (clock e) (ticks st)) st)
            \<lparr>shipped := shipped st + 1,
             remote := (remote st)\<lparr>calls := calls (remote st) @ [CallExists (meta_ULID m)]\<rparr>,
             ticks := Suc (ticks st)\<rparr>)"
  | err where "eligible prev m" "Exists_err e (meta_ULID m) = None"
      "meta_ULID m \<notin> objects (remote st)" "Upload_err e (meta_ULID m) = Some err"
      "syncBlock e prev m st =
         (None, st\<lparr>uploadErrs := uploadErrs st + 1,
            remote := (remote st)\<lparr>calls := calls (remote st) @
               [CallExists (meta_ULID m), CallUpload (meta_ULID m)]\<rparr>\<rparr>)"
  | "eligible prev m" "Exists_err e (meta_ULID m) = None"
      "meta_ULID m \<notin> objects (remote st)" "Upload_err e (meta_ULID m) = None"
      "syncBlock e prev m st =
         (None, (set_Shipped (meta_ULID m) (model_Now (clock e) (ticks st)) st)
            \<lparr>shipped := shipped st + 1,
             remote := \<lparr>objects = insert (meta_ULID m) (objects (remote st)),
                        calls = calls (remote st) @
                          [CallExists (meta_ULID m), CallUpload (meta_ULID m)]\<rparr>,
             ticks := Suc (ticks st)\<rparr>)"
proof (cases "prev (meta_ULID m)")
  case (Some t)
  then show ?thesis using that(1) syncBlock_carried by blast
next
  case None
  show ?thesis
  proof (cases "eligible prev m")
    case False
    with None show ?thesis using that(2) syncBlock_skipped by blast
  next
    case True
    show ?thesis
    proof (cases "Exists_err e (meta_ULID m)")
      case (Some err)
      with True show ?thesis using that(3) syncBlock_exists_err by blast
    next
      case noerr: None
      show ?thesis
      proof (cases "meta_ULID m \<in> objects (remote st)")
        case True
        with \<open>eligible prev m\<close> noerr show ?thesis using that(4) syncBlock_found by blast
      next
        case False
        show ?thesis
        proof (cases "Upload_err e (meta_ULID m)")
          case None
          with \<open>eligible prev m\<close> noerr False show ?thesis using that(6) syncBlock_uploaded by blast
        next
          case (Some err)
          with \<open>eligible prev m\<close> noerr False show ?thesis
            using that(5) syncBlock_upload_failed by blast
        qed
      qed
    qed
  qed
qed

lemma counted_insert:
  "Upload_err e u = None \<Longrightarrow> counted e prev (insert u objs) m = counted e prev objs m"
  by (auto simp: counted_def)

lemma failing_insert:
  "Upload_err e u = None \<Longrightarrow> failing e prev (insert u objs) m = failing e prev objs m"
  by (auto simp: failing_def)

lemma syncLoop_counts:
  "syncLoop e prev ms st = (None, st') \<Longrightarrow>
   shipped st' = shipped st + length (filter (counted e prev (objects (remote st))) ms) \<and>
   uploadErrs st' = uploadErrs st + length (filter (failing e prev (objects (remote st))) ms)"
proof (induction ms arbitrary: st)
  case Nil
  then show ?case by simp
next
  case (Cons m ms)
  show ?case
  proof (cases rule: syncBlock_cases [of prev m e st])
    case (carried t)
    then have "\<not> counted e prev (objects (remote st)) m" "\<not> failing e prev (objects (remote st)) m"
      by (simp_all add: counted_def failing_def eligible_def)
    with carried Cons show ?thesis by fastforce
  next
    case skipped
    then have "\<not> counted e prev (objects (remote st)) m" "\<not> failing e prev (objects (remote st)) m"
      by (simp_all add: counted_def failing_def)
    with skipped Cons show ?thesis by fastforce
  next
    case (exists_err err)
    with Cons.prems show ?thesis by simp
  next
    case found
    then have "counted e prev (objects (remote st)) m" "\<not> failing e prev (objects (remote st)) m"
      by (simp_all add: counted_def failing_def)
    with found Cons show ?thesis by fastforce
  next
    case (upload_failed err)
    then have "\<not> counted e prev (objects (remote st)) m" "failing e prev (objects (remote st)) m"
      by (simp_all add: counted_def failing_def)
    with upload_failed Cons show ?thesis by fastforce
  next
    case uploaded
    then have c: "counted e prev (objects (remote st)) m" "\<not> failing e prev (objects (remote st)) m"
      by (simp_all add: counted_def failing_def)
    from uploaded Cons.prems have
      "syncLoop e prev ms ((set_Shipped (meta_ULID m) (model_Now (clock e) (ticks st)) st)
            \<lparr>shipped := shipped st + 1,
             remote := \<lparr>objects = insert (meta_ULID m) (objects (remote st)),
                        calls = calls (remote st) @
                          [CallExists (meta_ULID m), CallUpload (meta_ULID m)]\<rparr>,
             ticks := Suc (ticks st)\<rparr>) = (None, st')" by simp
    from Cons.IH [OF this] c uploaded(4) show ?thesis
      by (simp add: counted_insert failing_insert)
  qed
qed

lemma syncLoop_Cons:
  "syncBlock e prev m st = (r, st1) \<Longrightarrow>
   syncLoop e prev (m # ms) st =
     (case r of Some err \<Rightarrow> (Some err, st1) | None \<Rightarrow> syncLoop e prev ms st1)"
  by (simp split: option.splits)

lemma syncLoop_append:
  "syncLoop e prev (xs @ ys) st =
     (case syncLoop e prev xs st of
        (Some err, st') \<Rightarrow> (Some err, st')
      | (None, st') \<Rightarrow> syncLoop e prev ys st')"
  by (induction xs arbitrary: st) (auto split: prod.splits option.splits)

text \<open>What one iteration does to each part of the state.\<close>

lemma syncBlock_objects:
  assumes "syncBlock e prev m st = (r, st1)"
  shows "objects (remote st) \<subseteq> objects (remote st1)"
  using assms by (cases rule: syncBlock_cases [of prev m e st]) auto

lemma syncBlock_ticks:
  assumes "syncBlock e prev m st = (r, st1)"
  shows "ticks st \<le> ticks st1"
  using assms by (cases rule: syncBlock_cases [of prev m e st]) auto


lemma syncBlock_calls:
  assumes "syncBlock e prev m st = (r, st1)"
  shows "\<exists>cs. calls (remote st1) = calls (remote st) @ cs \<and>
           (\<forall>c\<in>set cs. eligible prev m \<and>
              (c = CallExists (meta_ULID m) \<or>
               c = CallUpload (meta_ULID m) \<and> meta_ULID m \<notin> objects (remote st)))"
  using assms by (cases rule: syncBlock_cases [of prev m e st]) auto

lemma syncBlock_other:
  assumes "syncBlock e prev m st = (r, st1)" "u \<noteq> meta_ULID m"
  shows "recmap st1 u = recmap st u"
  using assms by (cases rule: syncBlock_cases [of prev m e st]) (auto simp: recmap_set_Shipped)



lemma syncBlock_new:
  assumes "syncBlock e prev m st = (r, st1)" "prev (meta_ULID m) = None"
  shows "recmap st1 (meta_ULID m) = recmap st (meta_ULID m) \<and> ticks st1 = ticks st \<or>
         recmap st1 (meta_ULID m) = Some (model_Now (clock e) (ticks st)) \<and>
         ticks st1 = Suc (ticks st)"
  using assms by (cases rule: syncBlock_cases [of prev m e st]) (auto simp: recmap_set_Shipped)

lemma syncBlock_counted:
  assumes "syncBlock e prev m st = (r, st1)" "counted e prev (objects (remote st)) m"
    "r = None"
  shows "recmap st1 (meta_ULID m) = Some (model_Now (clock e) (ticks st)) \<and>
         ticks st1 = Suc (ticks st)"
  using assms
  by (cases rule: syncBlock_cases [of prev m e st])
     (auto simp: recmap_set_Shipped counted_def eligible_def)

lemma syncBlock_counted_later:
  assumes "syncBlock e prev m st = (r, st1)"
  shows "counted e prev (objects (remote st1)) m' = counted e prev (objects (remote st)) m'"
  using assms
  by (cases rule: syncBlock_cases [of prev m e st]) (auto simp: counted_insert)

lemma syncBlock_dom:
  assumes "syncBlock e prev m st = (None, st1)"
  shows "dom (recmap st1) =
         dom (recmap st) \<union>
         (if prev (meta_ULID m) \<noteq> None \<or> counted e prev (objects (remote st)) m
          then {meta_ULID m} else {})"
  using assms
  by (cases rule: syncBlock_cases [of prev m e st])
     (auto simp: recmap_set_Shipped counted_def eligible_def)

text \<open>The same, for the whole loop.\<close>

lemma syncLoop_objects:
  "syncLoop e prev ms st = (r, st') \<Longrightarrow> objects (remote st) \<subseteq> objects (remote st')"
proof (induction ms arbitrary: st)
  case Nil
  then show ?case by simp
next
  case (Cons m ms)
  obtain r1 st1 where step: "syncBlock e prev m st = (r1, st1)" by force
  show ?case
  proof (cases r1)
    case None
    with step Cons.prems have "syncLoop e prev ms st1 = (r, st')" by simp
    from Cons.IH [OF this] syncBlock_objects [OF step] show ?thesis by blast
  next
    case (Some err)
    with step Cons.prems have "st' = st1" by simp
    with syncBlock_objects [OF step] show ?thesis by simp
  qed
qed

lemma syncLoop_ticks:
  "syncLoop e prev ms st = (r, st') \<Longrightarrow> ticks st \<le> ticks st'"
proof (induction ms arbitrary: st)
  case Nil
  then show ?case by simp
next
  case (Cons m ms)
  obtain r1 st1 where step: "syncBlock e prev m st = (r1, st1)" by force
  show ?case
  proof (cases r1)
    case None
    with step Cons.prems have "syncLoop e prev ms st1 = (r, st')" by simp
    from Cons.IH [OF this] syncBlock_ticks [OF step] show ?thesis by simp
  next
    case (Some err)
    with step Cons.prems have "st' = st1" by simp
    with syncBlock_ticks [OF step] show ?thesis by simp
  qed
qed


lemma syncLoop_calls:
  "syncLoop e prev ms st = (r, st') \<Longrightarrow>
   \<exists>cs. calls (remote st') = calls (remote st) @ cs \<and>
     (\<forall>c\<in>set cs. \<exists>m\<in>set ms. eligible prev m \<and>
        (c = CallExists (meta_ULID m) \<or>
         c = CallUpload (meta_ULID m) \<and> meta_ULID m \<notin> objects (remote st)))"
proof (induction ms arbitrary: st)
  case Nil
  then show ?case by simp
next
  case (Cons m ms)
  obtain r1 st1 where step: "syncBlock e prev m st = (r1, st1)" by force
  from syncBlock_calls [OF step] obtain cs1 where
    cs1: "calls (remote st1) = calls (remote st) @ cs1"
      "\<forall>c\<in>set cs1. eligible prev m \<and>
              (c = CallExists (meta_ULID m) \<or>
               c = CallUpload (meta_ULID m) \<and> meta_ULID m \<notin> objects (remote st))"
    by blast
  show ?case
  proof (cases r1)
    case None
    with step Cons.prems have "syncLoop e prev ms st1 = (r, st')" by simp
    from Cons.IH [OF this] obtain cs2 where
      cs2: "calls (remote st') = calls (remote st1) @ cs2"
        "\<forall>c\<in>set cs2. \<exists>m\<in>set ms. eligible prev m \<and>
          (c = CallExists (meta_ULID m) \<or>
           c = CallUpload (meta_ULID m) \<and> meta_ULID m \<notin> objects (remote st1))"
      by blast
    have "calls (remote st') = calls (remote st) @ (cs1 @ cs2)"
      using cs1(1) cs2(1) by simp
    moreover have "\<forall>c\<in>set (cs1 @ cs2). \<exists>m'\<in>set (m # ms). eligible prev m' \<and>
          (c = CallExists (meta_ULID m') \<or>
           c = CallUpload (meta_ULID m') \<and> meta_ULID m' \<notin> objects (remote st))"
      using cs1(2) cs2(2) syncBlock_objects [OF step] by auto
    ultimately show ?thesis by blast
  next
    case (Some err)
    with step Cons.prems have "st' = st1" by simp
    with cs1 show ?thesis by auto
  qed
qed


lemma syncLoop_completes:
  "\<forall>m\<in>set ms. eligible prev m \<longrightarrow> Exists_err e (meta_ULID m) = None \<Longrightarrow>
   fst (syncLoop e prev ms st) = None"
proof (induction ms arbitrary: st)
  case Nil
  then show ?case by simp
next
  case (Cons m ms)
  have "fst (syncBlock e prev m st) = None"
    using Cons.prems by (cases rule: syncBlock_cases [of prev m e st]) auto
  then obtain st1 where step: "syncBlock e prev m st = (None, st1)"
    by (cases "syncBlock e prev m st") auto
  with Cons show ?case by simp
qed

lemma syncLoop_other:
  "syncLoop e prev ms st = (r, st') \<Longrightarrow> u \<notin> meta_ULID ` set ms \<Longrightarrow> recmap st' u = recmap st u"
proof (induction ms arbitrary: st)
  case Nil
  then show ?case by simp
next
  case (Cons m ms)
  obtain r1 st1 where step: "syncBlock e prev m st = (r1, st1)" by force
  from Cons.prems(2) have ne: "u \<noteq> meta_ULID m" "u \<notin> meta_ULID ` set ms" by auto
  show ?case
  proof (cases r1)
    case None
    with step Cons.prems have "syncLoop e prev ms st1 = (r, st')" by simp
    from Cons.IH [OF this ne(2)] syncBlock_other [OF step ne(1)] show ?thesis by simp
  next
    case (Some err)
    with step Cons.prems have "st' = st1" by simp
    with syncBlock_other [OF step ne(1)] show ?thesis by simp
  qed
qed

lemma syncLoop_counted_later:
  "syncBlock e prev m st = (r, st1) \<Longrightarrow>
   filter (counted e prev (objects (remote st1))) ms = filter (counted e prev (objects (remote st))) ms"
  by (simp add: syncBlock_counted_later cong: filter_cong)

lemma syncLoop_dom:
  "syncLoop e prev ms st = (None, st') \<Longrightarrow>
   dom (recmap st') =
     dom (recmap st) \<union>
     meta_ULID ` {m \<in> set ms. prev (meta_ULID m) \<noteq> None \<or> counted e prev (objects (remote st)) m}"
proof (induction ms arbitrary: st)
  case Nil
  then show ?case by simp
next
  case (Cons m ms)
  obtain r1 st1 where step: "syncBlock e prev m st = (r1, st1)" by force
  with Cons.prems have r1: "r1 = None" by (cases r1) simp_all
  with step Cons.prems have rest: "syncLoop e prev ms st1 = (None, st')" by simp
  have later: "\<And>m'. counted e prev (objects (remote st1)) m' = counted e prev (objects (remote st)) m'"
    using syncBlock_counted_later [OF step] .
  from Cons.IH [OF rest] syncBlock_dom [OF step [unfolded r1]] later
  show ?case by (simp only: list.set) (auto split: if_splits)
qed



lemma syncLoop_now_kept:
  "syncLoop e prev ms st = (r, st') \<Longrightarrow> prev u = None \<Longrightarrow>
   \<exists>k. k0 \<le> k \<and> k < ticks st \<and> recmap st u = Some (model_Now (clock e) k) \<Longrightarrow>
   \<exists>k. k0 \<le> k \<and> k < ticks st' \<and> recmap st' u = Some (model_Now (clock e) k)"
proof (induction ms arbitrary: st)
  case Nil
  then show ?case by simp
next
  case (Cons m ms)
  obtain r1 st1 where step: "syncBlock e prev m st = (r1, st1)" by force
  from Cons.prems(3) obtain k where
    k: "k0 \<le> k" "k < ticks st" "recmap st u = Some (model_Now (clock e) k)" by blast
  have st1: "\<exists>k. k0 \<le> k \<and> k < ticks st1 \<and> recmap st1 u = Some (model_Now (clock e) k)"
  proof (cases "u = meta_ULID m")
    case True
    with syncBlock_new [OF step] Cons.prems(2) consider
      "recmap st1 u = recmap st u" "ticks st1 = ticks st"
      | "recmap st1 u = Some (model_Now (clock e) (ticks st))" "ticks st1 = Suc (ticks st)"
      by auto
    then show ?thesis
    proof cases
      case 1
      with k show ?thesis by auto
    next
      case 2
      with k have "k0 \<le> ticks st \<and> ticks st < ticks st1 \<and>
          recmap st1 u = Some (model_Now (clock e) (ticks st))" by simp
      then show ?thesis by blast
    qed
  next
    case False
    with syncBlock_other [OF step] syncBlock_ticks [OF step] k
    have "k0 \<le> k \<and> k < ticks st1 \<and> recmap st1 u = Some (model_Now (clock e) k)" by simp
    then show ?thesis by blast
  qed
  show ?case
  proof (cases r1)
    case None
    with step Cons.prems have "syncLoop e prev ms st1 = (r, st')" by simp
    from Cons.IH [OF this Cons.prems(2) st1] show ?thesis .
  next
    case (Some err)
    with step Cons.prems have "st' = st1" by simp
    with st1 show ?thesis by simp
  qed
qed

lemma syncLoop_counted_now:
  "syncLoop e prev ms st = (None, st') \<Longrightarrow> m \<in> set ms \<Longrightarrow>
   counted e prev (objects (remote st)) m \<Longrightarrow>
   \<exists>k. ticks st \<le> k \<and> k < ticks st' \<and>
       recmap st' (meta_ULID m) = Some (model_Now (clock e) k)"
proof (induction ms arbitrary: st)
  case Nil
  then show ?case by simp
next
  case (Cons a ms)
  obtain r1 st1 where step: "syncBlock e prev a st = (r1, st1)" by force
  with Cons.prems have r1: "r1 = None" by (cases r1) simp_all
  with step Cons.prems have rest: "syncLoop e prev ms st1 = (None, st')" by simp
  from Cons.prems(3) have prev: "prev (meta_ULID m) = None"
    by (simp add: counted_def eligible_def)
  show ?case
  proof (cases "m = a")
    case True
    from syncBlock_counted [OF step _ r1] Cons.prems(3) True
    have "recmap st1 (meta_ULID m) = Some (model_Now (clock e) (ticks st))"
      "ticks st1 = Suc (ticks st)" by simp_all
    then have "\<exists>k. ticks st \<le> k \<and> k < ticks st1 \<and>
        recmap st1 (meta_ULID m) = Some (model_Now (clock e) k)" by auto
    from syncLoop_now_kept [OF rest prev this] show ?thesis .
  next
    case False
    with Cons.prems(2) have "m \<in> set ms" by simp
    moreover have "counted e prev (objects (remote st1)) m"
      using syncBlock_counted_later [OF step] Cons.prems(3) by simp
    ultimately obtain k where "ticks st1 \<le> k" "k < ticks st'"
      "recmap st' (meta_ULID m) = Some (model_Now (clock e) k)"
      using Cons.IH [OF rest] by blast
    with syncBlock_ticks [OF step] show ?thesis by (metis order_trans)
  qed
qed

lemma syncLoop_calls_exact:
  "\<forall>m\<in>set ms. eligible prev m \<and> Exists_err e (meta_ULID m) = None \<and>
      meta_ULID m \<notin> objects (remote st) \<Longrightarrow>
   distinct (map meta_ULID ms) \<Longrightarrow>
   calls (remote (snd (syncLoop e prev ms st))) =
     calls (remote st) @ concat (map (\<lambda>m. [CallExists (meta_ULID m), CallUpload (meta_ULID m)]) ms)"
proof (induction ms arbitrary: st)
  case Nil
  then show ?case by simp
next
  case (Cons m ms)
  obtain r1 st1 where step: "syncBlock e prev m st = (r1, st1)" by force
  from Cons.prems(1) have m: "eligible prev m" "Exists_err e (meta_ULID m) = None"
    "meta_ULID m \<notin> objects (remote st)" by simp_all
  have s1: "r1 = None \<and>
    calls (remote st1) = calls (remote st) @ [CallExists (meta_ULID m), CallUpload (meta_ULID m)] \<and>
    objects (remote st1) \<subseteq> insert (meta_ULID m) (objects (remote st))"
  proof (cases "Upload_err e (meta_ULID m)")
    case None
    from syncBlock_uploaded [OF m None] step show ?thesis by auto
  next
    case (Some err)
    from syncBlock_upload_failed [OF m Some] step show ?thesis by auto
  qed
  have "\<forall>m'\<in>set ms. eligible prev m' \<and> Exists_err e (meta_ULID m') = None \<and>
      meta_ULID m' \<notin> objects (remote st1)"
  proof
    fix m' assume m': "m' \<in> set ms"
    from Cons.prems(2) have "meta_ULID m \<notin> meta_ULID ` set ms" by simp
    with m' have "meta_ULID m' \<noteq> meta_ULID m" by (metis imageI)
    moreover from m' Cons.prems(1) have "meta_ULID m' \<notin> objects (remote st)" by simp
    ultimately have "meta_ULID m' \<notin> objects (remote st1)" using s1 by blast
    with m' Cons.prems(1) show "eligible prev m' \<and> Exists_err e (meta_ULID m') = None \<and>
      meta_ULID m' \<notin> objects (remote st1)" by simp
  qed
  moreover have "distinct (map meta_ULID ms)" using Cons.prems(2) by simp
  ultimately have "calls (remote (snd (syncLoop e prev ms st1))) =
     calls (remote st1) @ concat (map (\<lambda>m. [CallExists (meta_ULID m), CallUpload (meta_ULID m)]) ms)"
    by (rule Cons.IH)
  with step s1 show ?case by simp
qed

lemma syncLoop_aborts:
  assumes "\<forall>m'\<in>set pre. eligible prev m' \<longrightarrow> Exists_err e (meta_ULID m') = None"
    "eligible prev m" "Exists_err e (meta_ULID m) = Some err"
  shows "\<exists>st1. syncLoop e prev pre st = (None, st1) \<and>
           syncLoop e prev (pre @ m # post) st =
             (Some (Wrap ''check exists'' err),
              st1\<lparr>remote := (remote st1)\<lparr>calls := calls (remote st1) @ [CallExists (meta_ULID m)]\<rparr>\<rparr>)"
proof -
  obtain st1 where pre: "syncLoop e prev pre st = (None, st1)"
    using syncLoop_completes [OF assms(1), of st] by (cases "syncLoop e prev pre st") auto
  with syncBlock_exists_err [OF assms(2,3), of st1] show ?thesis
    by (simp add: syncLoop_append)
qed

lemma syncLoop_counted_same:
  "syncLoop e prev ms st = (r, st') \<Longrightarrow>
   counted e prev (objects (remote st')) m = counted e prev (objects (remote st)) m"
proof (induction ms arbitrary: st)
  case Nil
  then show ?case by simp
next
  case (Cons a ms)
  obtain r1 st1 where step: "syncBlock e prev a st = (r1, st1)" by force
  show ?case
  proof (cases r1)
    case None
    with step Cons.prems have "syncLoop e prev ms st1 = (r, st')" by simp
    from Cons.IH [OF this] syncBlock_counted_later [OF step] show ?thesis by simp
  next
    case (Some err)
    with step Cons.prems have "st' = st1" by simp
    with syncBlock_counted_later [OF step] show ?thesis by simp
  qed
qed

section \<open>Sync as a whole\<close>

lemma TimeFromUnixNano_model_Time [simp]: "TimeFromUnixNano (model_Time_Time t) = t"
proof -
  have "\<bar>t * 1000000\<bar> div 1000000 = \<bar>t\<bar>" by (simp add: abs_mult)
  then have "go_div (t * 1000000) 1000000 = sgn t * \<bar>t\<bar>"
    by (simp add: go_div_def sgn_mult)
  then show ?thesis by (simp add: TimeFromUnixNano_def model_Time_Time_def mult_sgn_abs)
qed

text \<open>Writing the meta files.\<close>

lemma renameFile_ok:
  "\<forall>op. fails op = None \<Longrightarrow> renameFile fails new old = (None, Json new)"
  by (simp add: renameFile_def)

lemma renameFile_result:
  "snd (renameFile fails new old) = old \<or> snd (renameFile fails new old) = Absent \<or>
   snd (renameFile fails new old) = Json new"
  by (simp add: renameFile_def)

lemma writeShipperMetaFile_ok:
  assumes "\<forall>n op. fs n op = None"
  shows "writeShipperMetaFile fs m d =
    (None, \<lparr>mimir_shipper_json = Json m,
            thanos_shipper_json = Json \<lparr>thanos_Version = shipperMetaVersion1, Uploaded = map fst (Shipped m)\<rparr>\<rparr>)"
  using assms
  by (cases d) (simp add: writeShipperMetaFile_def writeThanosShipperMetaFile_def writeTmp_def renameFile_def)


lemma recorded_ids_thanos_write:
  "recorded_ids (snd (writeThanosShipperMetaFile fs t d)) \<subseteq> recorded_ids d \<union> set (Uploaded t)"
  by (auto simp: recorded_ids_def writeThanosShipperMetaFile_def renameFile_def
      split: option.splits stored.splits if_splits)

lemma recorded_ids_write:
  "recorded_ids (snd (writeShipperMetaFile fs m d)) \<subseteq> recorded_ids d \<union> fst ` set (Shipped m)"
proof (cases "writeTmp (fs MimirMeta)")
  case (Some err)
  then show ?thesis by (simp add: writeShipperMetaFile_def)
next
  case None
  obtain r f where rn: "renameFile (fs MimirMeta) m (mimir_shipper_json d) = (r, f)" by force
  with renameFile_result [of "fs MimirMeta" m "mimir_shipper_json d"]
  have f: "f = mimir_shipper_json d \<or> f = Absent \<or> f = Json m" by simp
  then have d1: "recorded_ids (d\<lparr>mimir_shipper_json := f\<rparr>) \<subseteq> recorded_ids d \<union> fst ` set (Shipped m)"
    by (auto simp: recorded_ids_def split: stored.splits)
  show ?thesis
  proof (cases r)
    case (Some err)
    with None rn d1 show ?thesis by (simp add: writeShipperMetaFile_def)
  next
    case rNone: None
    let ?t = "\<lparr>thanos_Version = shipperMetaVersion1, Uploaded = map fst (Shipped m)\<rparr>"
    have "snd (writeShipperMetaFile fs m d) =
        snd (writeThanosShipperMetaFile fs ?t (d\<lparr>mimir_shipper_json := f\<rparr>))"
      using None rn rNone by (simp add: writeShipperMetaFile_def split: prod.splits option.splits)
    with recorded_ids_thanos_write [of fs ?t "d\<lparr>mimir_shipper_json := f\<rparr>"] d1
    show ?thesis by auto
  qed
qed

text \<open>The previously shipped blocks are among those the files mention.\<close>

lemma dom_readThanosShippedBlocks:
  assumes "readThanosShippedBlocks clk d k = Inr (blocks, k')"
  shows "dom blocks \<subseteq> recorded_ids d"
proof (cases "readThanosShipperMetaFile d")
  case (Inl err)
  with assms have "blocks = Map.empty"
    by (simp add: readThanosShippedBlocks_def split: if_splits)
  then show ?thesis by simp
next
  case (Inr t)
  then have t: "thanos_shipper_json d = Json t"
    by (auto simp: readThanosShipperMetaFile_def split: stored.splits if_splits)
  from Inr assms have "blocks = fst (stampUploaded clk (Uploaded t) Map.empty k)"
    by (auto simp: readThanosShippedBlocks_def dest: arg_cong [where f = fst])
  then have "dom blocks = set (Uploaded t)" by (simp add: stampUploaded_dom)
  with t show ?thesis by (simp add: recorded_ids_def)
qed

lemma dom_readShippedBlocks:
  assumes "readShippedBlocks clk d k = Inr (blocks, k')"
  shows "dom blocks \<subseteq> recorded_ids d"
proof (cases "readShipperMetaFile d")
  case (Inl err)
  with assms have "readThanosShippedBlocks clk d k = Inr (blocks, k')"
    by (simp add: readShippedBlocks_def)
  then show ?thesis by (rule dom_readThanosShippedBlocks)
next
  case (Inr m)
  then have m: "mimir_shipper_json d = Json m"
    by (auto simp: readShipperMetaFile_def split: stored.splits if_splits)
  from Inr assms have "blocks = map_option model_Time_Time \<circ> map_of (Shipped m)"
    by (simp add: readShippedBlocks_def)
  then have "dom blocks = dom (map_of (Shipped m))"
    by (auto simp: domIff)
  then have "dom blocks = fst ` set (Shipped m)"
    by (simp add: dom_map_of_conv_image_fst)
  with m show ?thesis by (simp add: recorded_ids_def)
qed

lemma dom_loadShipped: "dom (fst (loadShipped e w)) \<subseteq> recorded_ids (files w)"
proof (cases "readShippedBlocks (clock e) (files w) 0")
  case (Inl err)
  then show ?thesis by (simp add: loadShipped_def)
next
  case (Inr r)
  obtain blocks k' where "r = (blocks, k')" by force
  with Inr dom_readShippedBlocks [of "clock e" "files w" 0 blocks k'] show ?thesis
    by (simp add: loadShipped_def)
qed

text \<open>Sync, unfolded once the loop's result is known.\<close>

lemma syncBlocks_loop:
  "loadShipped e w = (prev, k0) \<Longrightarrow> blockMetasFromOldest (ReadDir e) = Inr metas \<Longrightarrow>
   syncBlocks e w = Inr (syncLoop e prev metas (initial_state w k0))"
  by (simp add: syncBlocks_def)

lemma Sync_completed:
  "syncBlocks e w = Inr (None, st) \<Longrightarrow>
   Sync e w =
     ((shipped st, if uploadErrs st > 0 then Some (ErrFailedToSync (uploadErrs st)) else None),
      \<lparr>files = snd (writeShipperMetaFile (fs_err e) (new_meta st) (files w)), store = remote st\<rparr>)"
  by (simp add: Sync_def split: prod.splits)

lemma Sync_aborted:
  "syncBlocks e w = Inr (Some err, st) \<Longrightarrow> Sync e w = ((0, Some err), w\<lparr>store := remote st\<rparr>)"
  by (simp add: Sync_def)

lemma Sync_no_listing:
  "syncBlocks e w = Inl err \<Longrightarrow> Sync e w = ((0, Some err), w)"
  by (simp add: Sync_def)

lemma initial_state_fields [simp]:
  "shipped (initial_state w k) = 0"
  "uploadErrs (initial_state w k) = 0"
  "remote (initial_state w k) = store w"
  "ticks (initial_state w k) = k"
  "recmap (initial_state w k) = Map.empty"
  "Version (new_meta (initial_state w k)) = shipperMetaVersion1"
  by (simp_all add: initial_state_def recmap_def)

lemma calls_since_append [simp]: "calls_since old (b\<lparr>calls := old @ cs\<rparr>) = cs"
  by (simp add: calls_since_def)

lemma calls_since_eq: "calls b = old @ cs \<Longrightarrow> calls_since old b = cs"
  by (simp add: calls_since_def)

text \<open>
  C10. When the existence check of a block fails, no check before it having
  failed, Sync returns the count 0 and that error wrapped as "check exists",
  whatever was shipped earlier in the pass; the meta files are left as they
  were; and the bucket is as the blocks before the failing one left it, the
  failing check being the last call made.
\<close>

theorem Sync_exists_error_aborts:
  assumes "loadShipped e w = (prev, k0)"
    and "blockMetasFromOldest (ReadDir e) = Inr (pre @ m # post)"
    and "\<forall>m'\<in>set pre. eligible prev m' \<longrightarrow> Exists_err e (meta_ULID m') = None"
    and "eligible prev m"
    and "Exists_err e (meta_ULID m) = Some err"
  shows "fst (Sync e w) = (0, Some (Wrap ''check exists'' err)) \<and>
         files (snd (Sync e w)) = files w \<and>
         (\<exists>st. syncLoop e prev pre (initial_state w k0) = (None, st) \<and>
            store (snd (Sync e w)) =
              (remote st)\<lparr>calls := calls (remote st) @ [CallExists (meta_ULID m)]\<rparr>)"
proof -
  from syncLoop_aborts [OF assms(3,4,5), of "initial_state w k0" post]
  obtain st where pre: "syncLoop e prev pre (initial_state w k0) = (None, st)"
    and all: "syncLoop e prev (pre @ m # post) (initial_state w k0) =
       (Some (Wrap ''check exists'' err),
        st\<lparr>remote := (remote st)\<lparr>calls := calls (remote st) @ [CallExists (meta_ULID m)]\<rparr>\<rparr>)"
    by blast
  from syncBlocks_loop [OF assms(1,2)] all
  have "Sync e w = ((0, Some (Wrap ''check exists'' err)),
      w\<lparr>store := (remote st)\<lparr>calls := calls (remote st) @ [CallExists (meta_ULID m)]\<rparr>\<rparr>)"
    by (simp add: Sync_aborted)
  with pre show ?thesis by simp
qed

text \<open>
  The theorem on a pass that uploads block A and then fails to check block B:
  the count returned is 0 although the loop had counted 1.
\<close>

theorem Sync_exists_error_aborts_witness:
  "fst (Sync env_check_fails world_new) = (0, Some (Wrap ''check exists'' (ErrOther ''timeout''))) \<and>
   files (snd (Sync env_check_fails world_new)) = files world_new \<and>
   (\<exists>st. syncLoop env_check_fails Map.empty [blockA] (initial_state world_new 0) = (None, st) \<and>
      store (snd (Sync env_check_fails world_new)) =
        (remote st)\<lparr>calls := calls (remote st) @ [CallExists (meta_ULID blockB)]\<rparr>) \<and>
   shipped (snd (syncLoop env_check_fails Map.empty [blockA] (initial_state world_new 0))) = 1"
proof -
  have 1: "loadShipped env_check_fails world_new = (Map.empty, 0)"
    by (simp add: Sync_eval example_defs env_check_fails_def)
  have 2: "blockMetasFromOldest (ReadDir env_check_fails) = Inr ([blockA] @ blockB # [])"
    by (simp add: Sync_eval example_defs env_check_fails_def)
  have 3: "\<forall>m'\<in>set [blockA]. eligible Map.empty m' \<longrightarrow> Exists_err env_check_fails (meta_ULID m') = None"
    by (simp add: Sync_eval example_defs env_check_fails_def)
  have 4: "eligible Map.empty blockB"
    by (simp add: Sync_eval example_defs)
  have 5: "Exists_err env_check_fails (meta_ULID blockB) = Some (ErrOther ''timeout'')"
    by (simp add: Sync_eval example_defs env_check_fails_def)
  have 6: "shipped (snd (syncLoop env_check_fails Map.empty [blockA] (initial_state world_new 0))) = 1"
    by (simp add: Sync_eval example_defs env_check_fails_def)
  from Sync_exists_error_aborts [OF 1 2 3 4 5] 6 show ?thesis by simp
qed

lemma Sync_reaches_write:
  assumes "loadShipped e w = (prev, k0)"
    and "blockMetasFromOldest (ReadDir e) = Inr metas"
    and "\<forall>m'\<in>set metas. eligible prev m' \<longrightarrow> Exists_err e (meta_ULID m') = None"
  obtains st where "syncLoop e prev metas (initial_state w k0) = (None, st)"
    and "syncBlocks e w = Inr (None, st)"
    and "Sync e w =
     ((shipped st, if uploadErrs st > 0 then Some (ErrFailedToSync (uploadErrs st)) else None),
      \<lparr>files = snd (writeShipperMetaFile (fs_err e) (new_meta st) (files w)), store = remote st\<rparr>)"
proof -
  obtain st where loop: "syncLoop e prev metas (initial_state w k0) = (None, st)"
    using syncLoop_completes [OF assms(3), of "initial_state w k0"]
    by (cases "syncLoop e prev metas (initial_state w k0)") auto
  with syncBlocks_loop [OF assms(1,2)] have sb: "syncBlocks e w = Inr (None, st)" by simp
  from that [OF loop sb Sync_completed [OF sb]] show ?thesis .
qed

text \<open>
  The bucket that a pass leaves is the one its loop leaves, whether the pass
  is aborted or not.
\<close>

lemma Sync_store:
  "syncBlocks e w = Inr (r, st) \<Longrightarrow> store (snd (Sync e w)) = remote st"
  by (cases r) (simp_all add: Sync_completed Sync_aborted)

text \<open>
  C1, as amended. Take an eligible block whose metadata object is in the
  bucket when Sync comes to it, \<open>st1\<close> being the state of the loop at that
  moment. In every pass, aborted or not, Sync does not upload the block from
  then on. When its existence check returns without an error, examining the
  block makes the one call \<^verbatim>\<open>Exists\<close>, enters the block in the record being
  built with the reading of the clock made then, and adds one to the count.
  When, moreover, no existence check after it fails: the record handed to the
  writer has the block with a reading of the clock made from then on, and the
  block is one of those that the returned count counts.
\<close>

theorem Sync_block_found_remote:
  assumes "loadShipped e w = (prev, k0)"
    and "blockMetasFromOldest (ReadDir e) = Inr (pre @ m # post)"
    and "eligible prev m"
    and "syncLoop e prev pre (initial_state w k0) = (None, st1)"
    and "meta_ULID m \<in> objects (remote st1)"
  shows "CallUpload (meta_ULID m) \<notin> set (calls_since (calls (remote st1)) (store (snd (Sync e w)))) \<and>
         (Exists_err e (meta_ULID m) = None \<longrightarrow>
            (\<exists>st2. syncBlock e prev m st1 = (None, st2) \<and>
               calls (remote st2) = calls (remote st1) @ [CallExists (meta_ULID m)] \<and>
               objects (remote st2) = objects (remote st1) \<and>
               map_of (Shipped (new_meta st2)) (meta_ULID m) = Some (model_Now (clock e) (ticks st1)) \<and>
               shipped st2 = shipped st1 + 1)) \<and>
         ((\<forall>m'\<in>set (m # post). eligible prev m' \<longrightarrow> Exists_err e (meta_ULID m') = None) \<longrightarrow>
            (\<exists>st. syncBlocks e w = Inr (None, st) \<and>
               (\<exists>k. ticks st1 \<le> k \<and> k < ticks st \<and>
                  map_of (Shipped (new_meta st)) (meta_ULID m) = Some (model_Now (clock e) k)) \<and>
               files (snd (Sync e w)) = snd (writeShipperMetaFile (fs_err e) (new_meta st) (files w)) \<and>
               fst (fst (Sync e w)) =
                 length (filter (counted e prev (objects (store w))) (pre @ m # post)) \<and>
               m \<in> set (filter (counted e prev (objects (store w))) (pre @ m # post))))"
proof (intro conjI impI)
  obtain r st where all: "syncLoop e prev (pre @ m # post) (initial_state w k0) = (r, st)" by force
  with assms(4) have rest: "syncLoop e prev (m # post) st1 = (r, st)"
    by (simp add: syncLoop_append)
  from syncBlocks_loop [OF assms(1,2)] all have sb: "syncBlocks e w = Inr (r, st)" by simp
  from syncLoop_calls [OF rest] obtain cs where
    cs: "calls (remote st) = calls (remote st1) @ cs"
      "\<forall>c\<in>set cs. \<exists>m'\<in>set (m # post). eligible prev m' \<and>
        (c = CallExists (meta_ULID m') \<or>
         c = CallUpload (meta_ULID m') \<and> meta_ULID m' \<notin> objects (remote st1))"
    by auto
  have "CallUpload (meta_ULID m) \<notin> set cs"
  proof
    assume "CallUpload (meta_ULID m) \<in> set cs"
    with cs(2) have "\<exists>m'\<in>set (m # post). eligible prev m' \<and>
        (CallUpload (meta_ULID m) = CallExists (meta_ULID m') \<or>
         CallUpload (meta_ULID m) = CallUpload (meta_ULID m') \<and>
         meta_ULID m' \<notin> objects (remote st1))" by blast
    then have "meta_ULID m \<notin> objects (remote st1)" by auto
    with assms(5) show False by simp
  qed
  moreover have "calls_since (calls (remote st1)) (store (snd (Sync e w))) = cs"
    using Sync_store [OF sb] cs(1) by (simp add: calls_since_eq)
  ultimately
  show "CallUpload (meta_ULID m) \<notin> set (calls_since (calls (remote st1)) (store (snd (Sync e w))))"
    by simp
next
  assume ok: "Exists_err e (meta_ULID m) = None"
  let ?st2 = "(set_Shipped (meta_ULID m) (model_Now (clock e) (ticks st1)) st1)
        \<lparr>shipped := shipped st1 + 1,
         remote := (remote st1)\<lparr>calls := calls (remote st1) @ [CallExists (meta_ULID m)]\<rparr>,
         ticks := Suc (ticks st1)\<rparr>"
  from syncBlock_found [OF assms(3) ok assms(5)] have step: "syncBlock e prev m st1 = (None, ?st2)" .
  have "recmap ?st2 (meta_ULID m) = Some (model_Now (clock e) (ticks st1))"
    by (simp add: recmap_set_Shipped)
  then have rec: "map_of (Shipped (new_meta ?st2)) (meta_ULID m) = Some (model_Now (clock e) (ticks st1))"
    by (simp add: recmap_def)
  show "\<exists>st2. syncBlock e prev m st1 = (None, st2) \<and>
      calls (remote st2) = calls (remote st1) @ [CallExists (meta_ULID m)] \<and>
      objects (remote st2) = objects (remote st1) \<and>
      map_of (Shipped (new_meta st2)) (meta_ULID m) = Some (model_Now (clock e) (ticks st1)) \<and>
      shipped st2 = shipped st1 + 1"
  proof (intro exI conjI)
    show "syncBlock e prev m st1 = (None, ?st2)" by (rule step)
    show "calls (remote ?st2) = calls (remote st1) @ [CallExists (meta_ULID m)]" by simp
    show "objects (remote ?st2) = objects (remote st1)" by simp
    show "map_of (Shipped (new_meta ?st2)) (meta_ULID m) = Some (model_Now (clock e) (ticks st1))"
      by (rule rec)
    show "shipped ?st2 = shipped st1 + 1" by simp
  qed
next
  assume later: "\<forall>m'\<in>set (m # post). eligible prev m' \<longrightarrow> Exists_err e (meta_ULID m') = None"
  from syncLoop_completes [OF this, of st1]
  obtain st where rest: "syncLoop e prev (m # post) st1 = (None, st)"
    by (cases "syncLoop e prev (m # post) st1") auto
  with assms(4) have loop: "syncLoop e prev (pre @ m # post) (initial_state w k0) = (None, st)"
    by (simp add: syncLoop_append)
  with syncBlocks_loop [OF assms(1,2)] have sb: "syncBlocks e w = Inr (None, st)" by simp
  note sync = Sync_completed [OF sb]
  have counted1: "counted e prev (objects (remote st1)) m"
    using assms(3,5) by (simp add: counted_def)
  with syncLoop_counted_same [OF assms(4), of m]
  have counted: "counted e prev (objects (store w)) m" by simp
  from syncLoop_counted_now [OF rest _ counted1]
  have "\<exists>k. ticks st1 \<le> k \<and> k < ticks st \<and>
      map_of (Shipped (new_meta st)) (meta_ULID m) = Some (model_Now (clock e) k)"
    by (simp add: recmap_def)
  moreover from syncLoop_counts [OF loop] sync
  have "fst (fst (Sync e w)) = length (filter (counted e prev (objects (store w))) (pre @ m # post))"
    by simp
  ultimately show "\<exists>st. syncBlocks e w = Inr (None, st) \<and>
               (\<exists>k. ticks st1 \<le> k \<and> k < ticks st \<and>
                  map_of (Shipped (new_meta st)) (meta_ULID m) = Some (model_Now (clock e) k)) \<and>
               files (snd (Sync e w)) = snd (writeShipperMetaFile (fs_err e) (new_meta st) (files w)) \<and>
               fst (fst (Sync e w)) =
                 length (filter (counted e prev (objects (store w))) (pre @ m # post)) \<and>
               m \<in> set (filter (counted e prev (objects (store w))) (pre @ m # post))"
    using sb sync counted by simp
qed

text \<open>
  The theorem on two passes over a bucket that holds block A. In the first,
  over blocks A and B, both are counted, block B being uploaded. In the
  second, over blocks A and C, the existence check of block C fails: the pass
  returns 0, and the only calls it made are the two checks.
\<close>

theorem Sync_block_found_remote_witness:
  "CallUpload (meta_ULID blockA) \<notin>
     set (calls_since (calls (remote (initial_state world_uploaded_A 0)))
            (store (snd (Sync (env_ok [blockB, blockA]) world_uploaded_A)))) \<and>
   (\<exists>st2. syncBlock (env_ok [blockB, blockA]) Map.empty blockA (initial_state world_uploaded_A 0) =
        (None, st2) \<and>
      calls (remote st2) =
        calls (remote (initial_state world_uploaded_A 0)) @ [CallExists (meta_ULID blockA)] \<and>
      objects (remote st2) = objects (remote (initial_state world_uploaded_A 0)) \<and>
      map_of (Shipped (new_meta st2)) (meta_ULID blockA) =
        Some (model_Now (clock (env_ok [blockB, blockA])) (ticks (initial_state world_uploaded_A 0))) \<and>
      shipped st2 = shipped (initial_state world_uploaded_A 0) + 1) \<and>
   (\<exists>st. syncBlocks (env_ok [blockB, blockA]) world_uploaded_A = Inr (None, st) \<and>
     (\<exists>k. ticks (initial_state world_uploaded_A 0) \<le> k \<and> k < ticks st \<and>
        map_of (Shipped (new_meta st)) (meta_ULID blockA) =
          Some (model_Now (clock (env_ok [blockB, blockA])) k)) \<and>
     files (snd (Sync (env_ok [blockB, blockA]) world_uploaded_A)) =
       snd (writeShipperMetaFile (fs_err (env_ok [blockB, blockA])) (new_meta st)
              (files world_uploaded_A)) \<and>
     fst (fst (Sync (env_ok [blockB, blockA]) world_uploaded_A)) =
       length (filter (counted (env_ok [blockB, blockA]) Map.empty (objects (store world_uploaded_A)))
                 ([] @ blockA # [blockB])) \<and>
     blockA \<in> set (filter (counted (env_ok [blockB, blockA]) Map.empty (objects (store world_uploaded_A)))
                     ([] @ blockA # [blockB]))) \<and>
   fst (Sync (env_ok [blockB, blockA]) world_uploaded_A) = (2, None) \<and>
   CallUpload (meta_ULID blockA) \<notin>
     set (calls_since (calls (remote (initial_state world_uploaded_A 0)))
            (store (snd (Sync env_second_check_fails world_uploaded_A)))) \<and>
   fst (Sync env_second_check_fails world_uploaded_A) =
     (0, Some (Wrap ''check exists'' (ErrOther ''timeout''))) \<and>
   calls (store (snd (Sync env_second_check_fails world_uploaded_A))) =
     [CallExists (meta_ULID blockA), CallExists (meta_ULID blockC)]"
proof -
  have 1: "loadShipped (env_ok [blockB, blockA]) world_uploaded_A = (Map.empty, 0)"
    by (simp add: Sync_eval example_defs world_uploaded_A_def)
  have 2: "blockMetasFromOldest (ReadDir (env_ok [blockB, blockA])) = Inr ([] @ blockA # [blockB])"
    by (simp add: Sync_eval example_defs)
  have 3: "eligible Map.empty blockA" by (simp add: Sync_eval example_defs)
  have 4: "\<forall>m'\<in>set (blockA # [blockB]). eligible Map.empty m' \<longrightarrow>
      Exists_err (env_ok [blockB, blockA]) (meta_ULID m') = None"
    by (simp add: example_defs)
  have 5: "syncLoop e Map.empty [] (initial_state world_uploaded_A 0) =
      (None, initial_state world_uploaded_A 0)" for e by simp
  have 6: "meta_ULID blockA \<in> objects (remote (initial_state world_uploaded_A 0))"
    by (simp add: example_defs world_uploaded_A_def)
  have 7: "fst (Sync (env_ok [blockB, blockA]) world_uploaded_A) = (2, None)"
    by (simp add: Sync_eval example_defs world_uploaded_A_def)
  have 8: "Exists_err (env_ok [blockB, blockA]) (meta_ULID blockA) = None"
    by (simp add: example_defs)
  have a1: "loadShipped env_second_check_fails world_uploaded_A = (Map.empty, 0)"
    by (simp add: Sync_eval example_defs world_uploaded_A_def env_second_check_fails_def)
  have a2: "blockMetasFromOldest (ReadDir env_second_check_fails) = Inr ([] @ blockA # [blockC])"
    by (simp add: Sync_eval example_defs env_second_check_fails_def)
  have a8: "Exists_err env_second_check_fails (meta_ULID blockA) = None"
    by (simp add: example_defs env_second_check_fails_def)
  have a9: "fst (Sync env_second_check_fails world_uploaded_A) =
      (0, Some (Wrap ''check exists'' (ErrOther ''timeout'')))"
    by (simp add: Sync_eval example_defs world_uploaded_A_def env_second_check_fails_def)
  have a10: "calls (store (snd (Sync env_second_check_fails world_uploaded_A))) =
      [CallExists (meta_ULID blockA), CallExists (meta_ULID blockC)]"
    by (simp add: Sync_eval example_defs world_uploaded_A_def env_second_check_fails_def)
  note t = Sync_block_found_remote [OF 1 2 3 5 6]
  note ta = Sync_block_found_remote [OF a1 a2 3 5 6]
  from t have c1: "CallUpload (meta_ULID blockA) \<notin>
     set (calls_since (calls (remote (initial_state world_uploaded_A 0)))
            (store (snd (Sync (env_ok [blockB, blockA]) world_uploaded_A))))"
    by (rule conjunct1)
  from t have "Exists_err (env_ok [blockB, blockA]) (meta_ULID blockA) = None \<longrightarrow>
    (\<exists>st2. syncBlock (env_ok [blockB, blockA]) Map.empty blockA (initial_state world_uploaded_A 0) =
        (None, st2) \<and>
      calls (remote st2) =
        calls (remote (initial_state world_uploaded_A 0)) @ [CallExists (meta_ULID blockA)] \<and>
      objects (remote st2) = objects (remote (initial_state world_uploaded_A 0)) \<and>
      map_of (Shipped (new_meta st2)) (meta_ULID blockA) =
        Some (model_Now (clock (env_ok [blockB, blockA])) (ticks (initial_state world_uploaded_A 0))) \<and>
      shipped st2 = shipped (initial_state world_uploaded_A 0) + 1)"
    by (rule conjunct1 [OF conjunct2])
  from this 8 have c2: "\<exists>st2. syncBlock (env_ok [blockB, blockA]) Map.empty blockA (initial_state world_uploaded_A 0) =
        (None, st2) \<and>
      calls (remote st2) =
        calls (remote (initial_state world_uploaded_A 0)) @ [CallExists (meta_ULID blockA)] \<and>
      objects (remote st2) = objects (remote (initial_state world_uploaded_A 0)) \<and>
      map_of (Shipped (new_meta st2)) (meta_ULID blockA) =
        Some (model_Now (clock (env_ok [blockB, blockA])) (ticks (initial_state world_uploaded_A 0))) \<and>
      shipped st2 = shipped (initial_state world_uploaded_A 0) + 1"
    by (rule mp)
  from t have "(\<forall>m'\<in>set (blockA # [blockB]). eligible Map.empty m' \<longrightarrow>
      Exists_err (env_ok [blockB, blockA]) (meta_ULID m') = None) \<longrightarrow>
    (\<exists>st. syncBlocks (env_ok [blockB, blockA]) world_uploaded_A = Inr (None, st) \<and>
     (\<exists>k. ticks (initial_state world_uploaded_A 0) \<le> k \<and> k < ticks st \<and>
        map_of (Shipped (new_meta st)) (meta_ULID blockA) =
          Some (model_Now (clock (env_ok [blockB, blockA])) k)) \<and>
     files (snd (Sync (env_ok [blockB, blockA]) world_uploaded_A)) =
       snd (writeShipperMetaFile (fs_err (env_ok [blockB, blockA])) (new_meta st)
              (files world_uploaded_A)) \<and>
     fst (fst (Sync (env_ok [blockB, blockA]) world_uploaded_A)) =
       length (filter (counted (env_ok [blockB, blockA]) Map.empty (objects (store world_uploaded_A)))
                 ([] @ blockA # [blockB])) \<and>
     blockA \<in> set (filter (counted (env_ok [blockB, blockA]) Map.empty (objects (store world_uploaded_A)))
                     ([] @ blockA # [blockB])))"
    by (rule conjunct2 [OF conjunct2])
  from this 4 have c3: "\<exists>st. syncBlocks (env_ok [blockB, blockA]) world_uploaded_A = Inr (None, st) \<and>
     (\<exists>k. ticks (initial_state world_uploaded_A 0) \<le> k \<and> k < ticks st \<and>
        map_of (Shipped (new_meta st)) (meta_ULID blockA) =
          Some (model_Now (clock (env_ok [blockB, blockA])) k)) \<and>
     files (snd (Sync (env_ok [blockB, blockA]) world_uploaded_A)) =
       snd (writeShipperMetaFile (fs_err (env_ok [blockB, blockA])) (new_meta st)
              (files world_uploaded_A)) \<and>
     fst (fst (Sync (env_ok [blockB, blockA]) world_uploaded_A)) =
       length (filter (counted (env_ok [blockB, blockA]) Map.empty (objects (store world_uploaded_A)))
                 ([] @ blockA # [blockB])) \<and>
     blockA \<in> set (filter (counted (env_ok [blockB, blockA]) Map.empty (objects (store world_uploaded_A)))
                     ([] @ blockA # [blockB]))"
    by (rule mp)
  from ta have c4: "CallUpload (meta_ULID blockA) \<notin>
     set (calls_since (calls (remote (initial_state world_uploaded_A 0)))
            (store (snd (Sync env_second_check_fails world_uploaded_A))))"
    by (rule conjunct1)
  from c1 c2 c3 7 c4 a9 a10 show ?thesis by (intro conjI)
qed

text \<open>
  C1 as stated fails: block A is eligible and in the bucket, Sync examines it
  first, and the existence check of block C then fails, so that the count
  returned is 0.
\<close>

theorem Sync_block_found_remote_counterexample:
  "blockMetasFromOldest (ReadDir env_second_check_fails) = Inr [blockA, blockC] \<and>
   eligible (fst (loadShipped env_second_check_fails world_uploaded_A)) blockA \<and>
   meta_ULID blockA \<in> objects (store world_uploaded_A) \<and>
   fst (Sync env_second_check_fails world_uploaded_A) =
     (0, Some (Wrap ''check exists'' (ErrOther ''timeout'')))"
  by (simp add: Sync_eval example_defs world_uploaded_A_def env_second_check_fails_def)

text \<open>
  C2. In a pass over distinct eligible blocks, none in the bucket, whose
  existence checks succeed and of which some uploads fail, Sync tries every
  block in turn, returns the number of successful uploads with the error
  "failed to sync n blocks", n being the number of failed uploads; the record
  it hands to the writer holds exactly the uploaded blocks; and when no file
  system call fails, both files hold that record.
\<close>

theorem Sync_partial_failure:
  assumes "loadShipped e w = (prev, k0)"
    and "blockMetasFromOldest (ReadDir e) = Inr metas"
    and "\<forall>m\<in>set metas. eligible prev m \<and> Exists_err e (meta_ULID m) = None \<and>
           meta_ULID m \<notin> objects (store w)"
    and "distinct (map meta_ULID metas)"
    and "\<exists>m\<in>set metas. Upload_err e (meta_ULID m) \<noteq> None"
  shows "\<exists>st. syncBlocks e w = Inr (None, st) \<and>
     fst (Sync e w) =
       (length (filter (\<lambda>m. Upload_err e (meta_ULID m) = None) metas),
        Some (ErrFailedToSync (length (filter (\<lambda>m. Upload_err e (meta_ULID m) \<noteq> None) metas)))) \<and>
     calls_since (calls (store w)) (store (snd (Sync e w))) =
       concat (map (\<lambda>m. [CallExists (meta_ULID m), CallUpload (meta_ULID m)]) metas) \<and>
     dom (map_of (Shipped (new_meta st))) =
       meta_ULID ` {m \<in> set metas. Upload_err e (meta_ULID m) = None} \<and>
     (\<forall>m\<in>set metas. Upload_err e (meta_ULID m) \<noteq> None \<longrightarrow>
        meta_ULID m \<notin> dom (map_of (Shipped (new_meta st)))) \<and>
     files (snd (Sync e w)) = snd (writeShipperMetaFile (fs_err e) (new_meta st) (files w)) \<and>
     ((\<forall>n op. fs_err e n op = None) \<longrightarrow>
        files (snd (Sync e w)) =
          \<lparr>mimir_shipper_json = Json (new_meta st),
           thanos_shipper_json =
             Json \<lparr>thanos_Version = shipperMetaVersion1, Uploaded = map fst (Shipped (new_meta st))\<rparr>\<rparr>)"
proof -
  from assms(3) have noerr: "\<forall>m'\<in>set metas. eligible prev m' \<longrightarrow> Exists_err e (meta_ULID m') = None"
    by simp
  from Sync_reaches_write [OF assms(1,2) noerr] obtain st where
    loop: "syncLoop e prev metas (initial_state w k0) = (None, st)"
    and sb: "syncBlocks e w = Inr (None, st)"
    and sync: "Sync e w =
     ((shipped st, if uploadErrs st > 0 then Some (ErrFailedToSync (uploadErrs st)) else None),
      \<lparr>files = snd (writeShipperMetaFile (fs_err e) (new_meta st) (files w)), store = remote st\<rparr>)"
    by blast
  have c: "\<And>m. m \<in> set metas \<Longrightarrow>
      counted e prev (objects (store w)) m = (Upload_err e (meta_ULID m) = None)"
    using assms(3) by (simp add: counted_def)
  have f: "\<And>m. m \<in> set metas \<Longrightarrow>
      failing e prev (objects (store w)) m = (Upload_err e (meta_ULID m) \<noteq> None)"
    using assms(3) by (simp add: failing_def)
  have cf: "filter (counted e prev (objects (store w))) metas =
      filter (\<lambda>m. Upload_err e (meta_ULID m) = None) metas"
    using c by (simp cong: filter_cong)
  have ff: "filter (failing e prev (objects (store w))) metas =
      filter (\<lambda>m. Upload_err e (meta_ULID m) \<noteq> None) metas"
    using f by (simp cong: filter_cong)
  from syncLoop_counts [OF loop] cf ff
  have n: "shipped st = length (filter (\<lambda>m. Upload_err e (meta_ULID m) = None) metas)"
    "uploadErrs st = length (filter (\<lambda>m. Upload_err e (meta_ULID m) \<noteq> None) metas)"
    by simp_all
  from assms(5) have "filter (\<lambda>m. Upload_err e (meta_ULID m) \<noteq> None) metas \<noteq> []"
    by (simp add: filter_empty_conv)
  with n(2) have pos: "uploadErrs st > 0" by simp
  have calls: "calls (remote st) = calls (store w) @
      concat (map (\<lambda>m. [CallExists (meta_ULID m), CallUpload (meta_ULID m)]) metas)"
    using syncLoop_calls_exact [of metas prev e "initial_state w k0"] assms(3,4) loop by simp
  have "{m \<in> set metas. prev (meta_ULID m) \<noteq> None \<or> counted e prev (objects (store w)) m} =
      {m \<in> set metas. Upload_err e (meta_ULID m) = None}"
    using c assms(3) by (auto simp: eligible_def)
  with syncLoop_dom [OF loop]
  have "dom (recmap st) = meta_ULID ` {m \<in> set metas. Upload_err e (meta_ULID m) = None}"
    by simp
  then have dom: "dom (map_of (Shipped (new_meta st))) =
      meta_ULID ` {m \<in> set metas. Upload_err e (meta_ULID m) = None}"
    by (simp add: recmap_def)
  have notin: "\<forall>m\<in>set metas. Upload_err e (meta_ULID m) \<noteq> None \<longrightarrow>
        meta_ULID m \<notin> dom (map_of (Shipped (new_meta st)))"
    unfolding dom by auto
  have written: "(\<forall>n op. fs_err e n op = None) \<longrightarrow>
        snd (writeShipperMetaFile (fs_err e) (new_meta st) (files w)) =
          \<lparr>mimir_shipper_json = Json (new_meta st),
           thanos_shipper_json =
             Json \<lparr>thanos_Version = shipperMetaVersion1, Uploaded = map fst (Shipped (new_meta st))\<rparr>\<rparr>"
    by (simp add: writeShipperMetaFile_ok)
  from sb sync n pos calls dom notin written show ?thesis
    by (simp add: calls_since_eq)
qed

text \<open>
  The theorem on blocks A, B, C, the upload of B failing: the count is 2, the
  error names 1 failure, and the current-format file holds A and C only.
\<close>

theorem Sync_partial_failure_witness:
  "fst (Sync env_B_fails world_new) = (2, Some (ErrFailedToSync 1)) \<and>
   calls_since [] (store (snd (Sync env_B_fails world_new))) =
     [CallExists (ULID 1001 1), CallUpload (ULID 1001 1),
      CallExists (ULID 1002 2), CallUpload (ULID 1002 2),
      CallExists (ULID 1003 3), CallUpload (ULID 1003 3)] \<and>
   (\<exists>rec. mimir_shipper_json (files (snd (Sync env_B_fails world_new))) = Json rec \<and>
      dom (map_of (Shipped rec)) = {ULID 1001 1, ULID 1003 3} \<and>
      ULID 1002 2 \<notin> dom (map_of (Shipped rec)))"
proof -
  have 1: "loadShipped env_B_fails world_new = (Map.empty, 0)"
    by (simp add: Sync_eval example_defs env_B_fails_def)
  have 2: "blockMetasFromOldest (ReadDir env_B_fails) = Inr [blockA, blockB, blockC]"
    by (simp add: Sync_eval example_defs env_B_fails_def)
  have 3: "\<forall>m\<in>set [blockA, blockB, blockC]. eligible Map.empty m \<and>
      Exists_err env_B_fails (meta_ULID m) = None \<and> meta_ULID m \<notin> objects (store world_new)"
    by (simp add: Sync_eval example_defs env_B_fails_def)
  have 4: "distinct (map meta_ULID [blockA, blockB, blockC])"
    by (simp add: example_defs)
  have 5: "\<exists>m\<in>set [blockA, blockB, blockC]. Upload_err env_B_fails (meta_ULID m) \<noteq> None"
    by (simp add: example_defs env_B_fails_def)
  have 6: "\<forall>n op. fs_err env_B_fails n op = None"
    by (simp add: example_defs env_B_fails_def)
  have 7: "calls (store world_new) = []" by (simp add: world_new_def)
  from Sync_partial_failure [OF 1 2 3 4 5] obtain st where all:
    "syncBlocks env_B_fails world_new = Inr (None, st) \<and>
     fst (Sync env_B_fails world_new) =
       (length (filter (\<lambda>m. Upload_err env_B_fails (meta_ULID m) = None) [blockA, blockB, blockC]),
        Some (ErrFailedToSync (length (filter (\<lambda>m. Upload_err env_B_fails (meta_ULID m) \<noteq> None)
           [blockA, blockB, blockC])))) \<and>
     calls_since (calls (store world_new)) (store (snd (Sync env_B_fails world_new))) =
       concat (map (\<lambda>m. [CallExists (meta_ULID m), CallUpload (meta_ULID m)]) [blockA, blockB, blockC]) \<and>
     dom (map_of (Shipped (new_meta st))) =
       meta_ULID ` {m \<in> set [blockA, blockB, blockC]. Upload_err env_B_fails (meta_ULID m) = None} \<and>
     (\<forall>m\<in>set [blockA, blockB, blockC]. Upload_err env_B_fails (meta_ULID m) \<noteq> None \<longrightarrow>
        meta_ULID m \<notin> dom (map_of (Shipped (new_meta st)))) \<and>
     files (snd (Sync env_B_fails world_new)) =
       snd (writeShipperMetaFile (fs_err env_B_fails) (new_meta st) (files world_new)) \<and>
     ((\<forall>n op. fs_err env_B_fails n op = None) \<longrightarrow>
        files (snd (Sync env_B_fails world_new)) =
          \<lparr>mimir_shipper_json = Json (new_meta st),
           thanos_shipper_json =
             Json \<lparr>thanos_Version = shipperMetaVersion1, Uploaded = map fst (Shipped (new_meta st))\<rparr>\<rparr>)"
    ..
  then have a: "fst (Sync env_B_fails world_new) =
       (length (filter (\<lambda>m. Upload_err env_B_fails (meta_ULID m) = None) [blockA, blockB, blockC]),
        Some (ErrFailedToSync (length (filter (\<lambda>m. Upload_err env_B_fails (meta_ULID m) \<noteq> None)
           [blockA, blockB, blockC]))))"
    and b: "calls_since (calls (store world_new)) (store (snd (Sync env_B_fails world_new))) =
       concat (map (\<lambda>m. [CallExists (meta_ULID m), CallUpload (meta_ULID m)]) [blockA, blockB, blockC])"
    and c: "dom (map_of (Shipped (new_meta st))) =
       meta_ULID ` {m \<in> set [blockA, blockB, blockC]. Upload_err env_B_fails (meta_ULID m) = None}"
    and d: "(\<forall>n op. fs_err env_B_fails n op = None) \<longrightarrow>
        files (snd (Sync env_B_fails world_new)) =
          \<lparr>mimir_shipper_json = Json (new_meta st),
           thanos_shipper_json =
             Json \<lparr>thanos_Version = shipperMetaVersion1, Uploaded = map fst (Shipped (new_meta st))\<rparr>\<rparr>"
    by blast+
  from a have a': "fst (Sync env_B_fails world_new) = (2, Some (ErrFailedToSync 1))"
    by (simp add: example_defs env_B_fails_def)
  from b 7 have b': "calls_since [] (store (snd (Sync env_B_fails world_new))) =
     [CallExists (ULID 1001 1), CallUpload (ULID 1001 1),
      CallExists (ULID 1002 2), CallUpload (ULID 1002 2),
      CallExists (ULID 1003 3), CallUpload (ULID 1003 3)]"
    by (simp add: example_defs)
  have "{m \<in> set [blockA, blockB, blockC]. Upload_err env_B_fails (meta_ULID m) = None} =
      {blockA, blockC}"
    by (auto simp: example_defs env_B_fails_def)
  with c have c': "dom (map_of (Shipped (new_meta st))) = {ULID 1001 1, ULID 1003 3}"
    by (simp add: example_defs)
  from d 6 have "mimir_shipper_json (files (snd (Sync env_B_fails world_new))) = Json (new_meta st)"
    by simp
  with c' have "\<exists>rec. mimir_shipper_json (files (snd (Sync env_B_fails world_new))) = Json rec \<and>
      dom (map_of (Shipped rec)) = {ULID 1001 1, ULID 1003 3} \<and>
      ULID 1002 2 \<notin> dom (map_of (Shipped rec))" by simp
  with a' b' show ?thesis by simp
qed

text \<open>The faults of the file system do not reach the loop.\<close>

lemma bucket_Exists_fs_err [simp]: "bucket_Exists (e\<lparr>fs_err := fs\<rparr>) u b = bucket_Exists e u b"
  by (simp add: bucket_Exists_def)

lemma upload_fs_err [simp]: "upload (e\<lparr>fs_err := fs\<rparr>) m b = upload e m b"
  by (simp add: upload_def block_Upload_def)

lemma syncBlock_fs_err [simp]:
  "syncBlock (e\<lparr>fs_err := fs\<rparr>) prev m st = syncBlock e prev m st"
  by (simp add: syncBlock_def split: option.splits prod.splits sum.splits)

lemma syncLoop_fs_err [simp]:
  "syncLoop (e\<lparr>fs_err := fs\<rparr>) prev ms st = syncLoop e prev ms st"
  by (induction ms arbitrary: st) (simp_all split: prod.splits option.splits)

lemma syncBlocks_fs_err [simp]: "syncBlocks (e\<lparr>fs_err := fs\<rparr>) w = syncBlocks e w"
  by (simp add: syncBlocks_def loadShipped_def split: prod.splits sum.splits)





section \<open>Passes in a row\<close>








lemma syncLoop_filtered:
  assumes loop: "syncLoop e prev metas st = (r, st')"
    and prev: "prev u = None"
    and skip: "\<forall>m\<in>set metas. meta_ULID m = u \<longrightarrow> NumSamples m = 0 \<or> Compaction_Level m > 1"
  shows "\<exists>cs. calls (remote st') = calls (remote st) @ cs \<and>
           CallUpload u \<notin> set cs \<and> CallExists u \<notin> set cs"
    and "r = None \<Longrightarrow> u \<notin> dom (recmap st) \<Longrightarrow> u \<notin> dom (recmap st')"
proof -
  have ne: "\<And>m. m \<in> set metas \<Longrightarrow> meta_ULID m = u \<Longrightarrow> \<not> eligible prev m"
    using skip by (auto simp: eligible_def)
  from syncLoop_calls [OF loop] obtain cs where
    cs: "calls (remote st') = calls (remote st) @ cs"
      "\<forall>c\<in>set cs. \<exists>m\<in>set metas. eligible prev m \<and>
        (c = CallExists (meta_ULID m) \<or>
         c = CallUpload (meta_ULID m) \<and> meta_ULID m \<notin> objects (remote st))"
    by auto
  have "CallUpload u \<notin> set cs"
  proof
    assume "CallUpload u \<in> set cs"
    with cs(2) have "\<exists>m\<in>set metas. eligible prev m \<and>
        (CallUpload u = CallExists (meta_ULID m) \<or>
         CallUpload u = CallUpload (meta_ULID m) \<and> meta_ULID m \<notin> objects (remote st))"
      by blast
    then obtain m where "m \<in> set metas" "eligible prev m" "u = meta_ULID m" by auto
    with ne show False by blast
  qed
  moreover have "CallExists u \<notin> set cs"
  proof
    assume "CallExists u \<in> set cs"
    with cs(2) have "\<exists>m\<in>set metas. eligible prev m \<and>
        (CallExists u = CallExists (meta_ULID m) \<or>
         CallExists u = CallUpload (meta_ULID m) \<and> meta_ULID m \<notin> objects (remote st))"
      by blast
    then obtain m where "m \<in> set metas" "eligible prev m" "u = meta_ULID m" by auto
    with ne show False by blast
  qed
  ultimately show "\<exists>cs. calls (remote st') = calls (remote st) @ cs \<and>
           CallUpload u \<notin> set cs \<and> CallExists u \<notin> set cs"
    using cs(1) by blast
  show "u \<notin> dom (recmap st')" if "r = None" "u \<notin> dom (recmap st)"
  proof
    assume "u \<in> dom (recmap st')"
    with syncLoop_dom [OF loop [unfolded that(1)]] that(2)
    obtain m where m: "m \<in> set metas" "u = meta_ULID m"
      "prev (meta_ULID m) \<noteq> None \<or> counted e prev (objects (remote st)) m"
      by blast
    with prev have "counted e prev (objects (remote st)) m" by simp
    then have "eligible prev m" by (simp add: counted_def)
    with ne m show False by blast
  qed
qed

lemma Sync_filtered_call:
  assumes "loadShipped e w = (prev, k0)" and "prev u = None"
    and "blockMetasFromOldest (ReadDir e) = Inr metas"
    and "\<forall>m\<in>set metas. meta_ULID m = u \<longrightarrow> NumSamples m = 0 \<or> Compaction_Level m > 1"
  shows "\<exists>cs. calls (store (snd (Sync e w))) = calls (store w) @ cs \<and>
           CallUpload u \<notin> set cs \<and> CallExists u \<notin> set cs"
    and "syncBlocks e w = Inr (None, st) \<Longrightarrow> u \<notin> dom (map_of (Shipped (new_meta st)))"
proof -
  obtain r st' where loop: "syncLoop e prev metas (initial_state w k0) = (r, st')" by force
  with syncBlocks_loop [OF assms(1,3)] have sb: "syncBlocks e w = Inr (r, st')" by simp
  have "store (snd (Sync e w)) = remote st'"
  proof (cases r)
    case None
    with sb Sync_completed [of e w st'] show ?thesis by simp
  next
    case (Some err)
    with sb Sync_aborted [of e w err st'] show ?thesis by simp
  qed
  with syncLoop_filtered(1) [OF loop assms(2,4)]
  show "\<exists>cs. calls (store (snd (Sync e w))) = calls (store w) @ cs \<and>
           CallUpload u \<notin> set cs \<and> CallExists u \<notin> set cs" by simp
  show "u \<notin> dom (map_of (Shipped (new_meta st)))" if "syncBlocks e w = Inr (None, st)"
  proof -
    from that sb have r: "r = None" and st: "st' = st" by simp_all
    have "u \<notin> dom (recmap (initial_state w k0))" by simp
    from syncLoop_filtered(2) [OF loop assms(2,4) r this] st show ?thesis
      by (simp add: recmap_def)
  qed
qed

lemma Sync_filtered_step:
  assumes "u \<notin> recorded_ids (files w)"
    and "\<forall>metas. blockMetasFromOldest (ReadDir e) = Inr metas \<longrightarrow>
           (\<forall>m\<in>set metas. meta_ULID m = u \<longrightarrow> NumSamples m = 0 \<or> Compaction_Level m > 1)"
  shows "u \<notin> recorded_ids (files (snd (Sync e w))) \<and>
         (\<exists>cs. calls (store (snd (Sync e w))) = calls (store w) @ cs \<and> CallUpload u \<notin> set cs)"
proof -
  obtain prev k0 where l: "loadShipped e w = (prev, k0)" by force
  with dom_loadShipped [of e w] assms(1) have prev: "prev u = None" by auto
  show ?thesis
  proof (cases "blockMetasFromOldest (ReadDir e)")
    case (Inl err)
    with l have "syncBlocks e w = Inl err" by (simp add: syncBlocks_def)
    from Sync_no_listing [OF this] assms(1) show ?thesis by simp
  next
    case (Inr metas)
    with assms(2) have skip:
      "\<forall>m\<in>set metas. meta_ULID m = u \<longrightarrow> NumSamples m = 0 \<or> Compaction_Level m > 1" by simp
    from Sync_filtered_call(1) [OF l prev Inr skip]
    have calls: "\<exists>cs. calls (store (snd (Sync e w))) = calls (store w) @ cs \<and> CallUpload u \<notin> set cs"
      by blast
    obtain r st where loop: "syncLoop e prev metas (initial_state w k0) = (r, st)" by force
    with syncBlocks_loop [OF l Inr] have sb: "syncBlocks e w = Inr (r, st)" by simp
    have "u \<notin> recorded_ids (files (snd (Sync e w)))"
    proof (cases r)
      case (Some err)
      with sb Sync_aborted [of e w err st] assms(1) show ?thesis by simp
    next
      case None
      with sb have sb': "syncBlocks e w = Inr (None, st)" by simp
      from Sync_filtered_call(2) [OF l prev Inr skip sb']
      have "u \<notin> fst ` set (Shipped (new_meta st))"
        by (simp add: dom_map_of_conv_image_fst)
      with recorded_ids_write [of "fs_err e" "new_meta st" "files w"] assms(1)
      have "u \<notin> recorded_ids (snd (writeShipperMetaFile (fs_err e) (new_meta st) (files w)))"
        by blast
      with Sync_completed [OF sb'] show ?thesis by simp
    qed
    with calls show ?thesis by simp
  qed
qed

lemma SyncMany_filtered:
  assumes "u \<notin> recorded_ids (files w)"
    and "\<forall>e\<in>set es. \<forall>metas. blockMetasFromOldest (ReadDir e) = Inr metas \<longrightarrow>
           (\<forall>m\<in>set metas. meta_ULID m = u \<longrightarrow> NumSamples m = 0 \<or> Compaction_Level m > 1)"
  shows "u \<notin> recorded_ids (files (SyncMany es w)) \<and>
         (\<exists>cs. calls (store (SyncMany es w)) = calls (store w) @ cs \<and> CallUpload u \<notin> set cs)"
  using assms
proof (induction es arbitrary: w)
  case Nil
  then show ?case by simp
next
  case (Cons e es)
  from Cons.prems(2) have e: "\<forall>metas. blockMetasFromOldest (ReadDir e) = Inr metas \<longrightarrow>
           (\<forall>m\<in>set metas. meta_ULID m = u \<longrightarrow> NumSamples m = 0 \<or> Compaction_Level m > 1)"
    and es: "\<forall>e\<in>set es. \<forall>metas. blockMetasFromOldest (ReadDir e) = Inr metas \<longrightarrow>
           (\<forall>m\<in>set metas. meta_ULID m = u \<longrightarrow> NumSamples m = 0 \<or> Compaction_Level m > 1)"
    by simp_all
  from Sync_filtered_step [OF Cons.prems(1) e] obtain cs1 where
    s1: "u \<notin> recorded_ids (files (snd (Sync e w)))"
      "calls (store (snd (Sync e w))) = calls (store w) @ cs1" "CallUpload u \<notin> set cs1"
    by blast
  from Cons.IH [OF s1(1) es] obtain cs2 where
    s2: "u \<notin> recorded_ids (files (SyncMany es (snd (Sync e w))))"
      "calls (store (SyncMany es (snd (Sync e w)))) = calls (store (snd (Sync e w))) @ cs2"
      "CallUpload u \<notin> set cs2"
    by blast
  have "calls (store (SyncMany (e # es) w)) = calls (store w) @ (cs1 @ cs2)"
    using s1(2) s2(2) by simp
  moreover have "CallUpload u \<notin> set (cs1 @ cs2)" using s1(3) s2(3) by simp
  ultimately show ?case using s2(1) by auto
qed

text \<open>
  C7. In a Sync call, a block that is not in the previously shipped set and
  that is empty or of compaction level above 1 wherever the listing has it is
  not uploaded, and is not in the record that the call hands to the writer.
  Across any number of Sync calls, a block that neither meta file mentions at
  the start and that is empty or of level above 1 in every listing is never
  uploaded and never appears in either meta file.
\<close>

theorem Sync_never_ships_filtered:
  "(loadShipped e w = (prev, k0) \<and> prev u = None \<and>
    blockMetasFromOldest (ReadDir e) = Inr metas \<and>
    (\<forall>m\<in>set metas. meta_ULID m = u \<longrightarrow> NumSamples m = 0 \<or> Compaction_Level m > 1) \<longrightarrow>
      CallUpload u \<notin> set (calls_since (calls (store w)) (store (snd (Sync e w)))) \<and>
      (\<forall>st. syncBlocks e w = Inr (None, st) \<longrightarrow> u \<notin> dom (map_of (Shipped (new_meta st))))) \<and>
   (u \<notin> recorded_ids (files w) \<and>
    (\<forall>e\<in>set es. \<forall>metas. blockMetasFromOldest (ReadDir e) = Inr metas \<longrightarrow>
       (\<forall>m\<in>set metas. meta_ULID m = u \<longrightarrow> NumSamples m = 0 \<or> Compaction_Level m > 1)) \<longrightarrow>
      CallUpload u \<notin> set (calls_since (calls (store w)) (store (SyncMany es w))) \<and>
      u \<notin> recorded_ids (files (SyncMany es w)))"
proof (intro conjI impI allI)
  assume a: "loadShipped e w = (prev, k0) \<and> prev u = None \<and>
    blockMetasFromOldest (ReadDir e) = Inr metas \<and>
    (\<forall>m\<in>set metas. meta_ULID m = u \<longrightarrow> NumSamples m = 0 \<or> Compaction_Level m > 1)"
  then have 1: "loadShipped e w = (prev, k0)" and 2: "prev u = None"
    and 3: "blockMetasFromOldest (ReadDir e) = Inr metas"
    and 4: "\<forall>m\<in>set metas. meta_ULID m = u \<longrightarrow> NumSamples m = 0 \<or> Compaction_Level m > 1"
    by simp_all
  from Sync_filtered_call(1) [OF 1 2 3 4]
  show "CallUpload u \<notin> set (calls_since (calls (store w)) (store (snd (Sync e w))))"
    by (auto simp: calls_since_def)
  fix st assume "syncBlocks e w = Inr (None, st)"
  from Sync_filtered_call(2) [OF 1 2 3 4 this]
  show "u \<notin> dom (map_of (Shipped (new_meta st)))" .
next
  assume b: "u \<notin> recorded_ids (files w) \<and>
    (\<forall>e\<in>set es. \<forall>metas. blockMetasFromOldest (ReadDir e) = Inr metas \<longrightarrow>
       (\<forall>m\<in>set metas. meta_ULID m = u \<longrightarrow> NumSamples m = 0 \<or> Compaction_Level m > 1))"
  then have 1: "u \<notin> recorded_ids (files w)"
    and 2: "\<forall>e\<in>set es. \<forall>metas. blockMetasFromOldest (ReadDir e) = Inr metas \<longrightarrow>
       (\<forall>m\<in>set metas. meta_ULID m = u \<longrightarrow> NumSamples m = 0 \<or> Compaction_Level m > 1)"
    by simp_all
  from SyncMany_filtered [OF 1 2]
  show "CallUpload u \<notin> set (calls_since (calls (store w)) (store (SyncMany es w)))"
    by (auto simp: calls_since_def)
  from SyncMany_filtered [OF 1 2]
  show "u \<notin> recorded_ids (files (SyncMany es w))" by simp
qed

text \<open>
  The theorem on one and on two passes over blocks A, B, the empty block and
  the block of level 2.
\<close>

theorem Sync_never_ships_filtered_witness:
  "CallUpload (ULID 1004 4) \<notin>
     set (calls_since (calls (store world_new)) (store (snd (Sync env_mixed world_new)))) \<and>
   (\<exists>st. syncBlocks env_mixed world_new = Inr (None, st) \<and>
      ULID 1004 4 \<notin> dom (map_of (Shipped (new_meta st)))) \<and>
   CallUpload (ULID 1004 4) \<notin>
     set (calls_since (calls (store world_new)) (store (SyncMany [env_mixed, env_mixed] world_new))) \<and>
   ULID 1004 4 \<notin> recorded_ids (files (SyncMany [env_mixed, env_mixed] world_new)) \<and>
   CallUpload (ULID 1005 5) \<notin>
     set (calls_since (calls (store world_new)) (store (SyncMany [env_mixed, env_mixed] world_new))) \<and>
   ULID 1005 5 \<notin> recorded_ids (files (SyncMany [env_mixed, env_mixed] world_new))"
proof -
  have l: "loadShipped env_mixed world_new = (Map.empty, 0)"
    by (simp add: Sync_eval example_defs env_mixed_def)
  have m: "blockMetasFromOldest (ReadDir env_mixed) = Inr [blockA, blockB, blockEmpty, blockLevel2]"
    by (simp add: Sync_eval example_defs env_mixed_def)
  have s4: "\<forall>m\<in>set [blockA, blockB, blockEmpty, blockLevel2].
      meta_ULID m = ULID 1004 4 \<longrightarrow> NumSamples m = 0 \<or> Compaction_Level m > 1"
    by (simp add: example_defs)
  have s5: "\<forall>m\<in>set [blockA, blockB, blockEmpty, blockLevel2].
      meta_ULID m = ULID 1005 5 \<longrightarrow> NumSamples m = 0 \<or> Compaction_Level m > 1"
    by (simp add: example_defs)
  have r: "ULID 1004 4 \<notin> recorded_ids (files world_new)"
    "ULID 1005 5 \<notin> recorded_ids (files world_new)"
    by (simp_all add: recorded_ids_def example_defs)
  have e4: "\<forall>e\<in>set [env_mixed, env_mixed]. \<forall>metas. blockMetasFromOldest (ReadDir e) = Inr metas \<longrightarrow>
       (\<forall>m\<in>set metas. meta_ULID m = ULID 1004 4 \<longrightarrow> NumSamples m = 0 \<or> Compaction_Level m > 1)"
    using m s4 by simp
  have e5: "\<forall>e\<in>set [env_mixed, env_mixed]. \<forall>metas. blockMetasFromOldest (ReadDir e) = Inr metas \<longrightarrow>
       (\<forall>m\<in>set metas. meta_ULID m = ULID 1005 5 \<longrightarrow> NumSamples m = 0 \<or> Compaction_Level m > 1)"
    using m s5 by simp
  have ok: "\<forall>m'\<in>set [blockA, blockB, blockEmpty, blockLevel2].
      eligible Map.empty m' \<longrightarrow> Exists_err env_mixed (meta_ULID m') = None"
    by (simp add: example_defs env_mixed_def)
  from Sync_reaches_write [OF l m ok] obtain st where
    sb: "syncBlocks env_mixed world_new = Inr (None, st)" by blast
  note a = Sync_never_ships_filtered [of env_mixed world_new Map.empty 0 "ULID 1004 4"
      "[blockA, blockB, blockEmpty, blockLevel2]" "[env_mixed, env_mixed]"]
  note b = Sync_never_ships_filtered [of env_mixed world_new Map.empty 0 "ULID 1005 5"
      "[blockA, blockB, blockEmpty, blockLevel2]" "[env_mixed, env_mixed]"]
  from a l m s4 have a1: "CallUpload (ULID 1004 4) \<notin>
     set (calls_since (calls (store world_new)) (store (snd (Sync env_mixed world_new))))"
    and a2: "\<forall>st. syncBlocks env_mixed world_new = Inr (None, st) \<longrightarrow>
      ULID 1004 4 \<notin> dom (map_of (Shipped (new_meta st)))"
    by simp_all
  from a2 sb have a3: "\<exists>st. syncBlocks env_mixed world_new = Inr (None, st) \<and>
      ULID 1004 4 \<notin> dom (map_of (Shipped (new_meta st)))" by blast
  from a r(1) e4 have a4: "CallUpload (ULID 1004 4) \<notin>
     set (calls_since (calls (store world_new)) (store (SyncMany [env_mixed, env_mixed] world_new)))"
    "ULID 1004 4 \<notin> recorded_ids (files (SyncMany [env_mixed, env_mixed] world_new))"
    by blast+
  from b r(2) e5 have b4: "CallUpload (ULID 1005 5) \<notin>
     set (calls_since (calls (store world_new)) (store (SyncMany [env_mixed, env_mixed] world_new)))"
    "ULID 1005 5 \<notin> recorded_ids (files (SyncMany [env_mixed, env_mixed] world_new))"
    by blast+
  from a1 a3 a4 b4 show ?thesis by blast
qed

section \<open>Forced compaction, the append permit and the idle check\<close>

text \<open>
  The loop leaves the tenant as it was but for the database, and every
  compaction it lists carries the state in which the tenant entered the loop.
\<close>

lemma compactLoop_sound:
  "compactLoop CH bd fuel u acc = Some (Return err, u', tr) \<Longrightarrow> bd \<noteq> 0 \<Longrightarrow>
   \<exists>rs d'. tr = acc @ map (Pair (state u)) rs \<and> split_windows CH bd (db u) rs err d' \<and>
     u' = u\<lparr>db := d'\<rparr>"
proof (induction fuel arbitrary: u acc)
  case 0
  then show ?case by simp
next
  case (Suc fuel)
  let ?min = "head_MinTime (db_Head (db u))" and ?max = "head_MaxTime (db_Head (db u))"
  show ?case
  proof (cases "alignment_bucket bd ?min = alignment_bucket bd ?max")
    case True
    obtain r d1 where ch: "CH (db u) ?min ?max = (r, d1)" by force
    with True Suc.prems have "r = err" "u' = u\<lparr>db := d1\<rparr>" "tr = acc @ [(state u, ?min, ?max)]"
      by (simp_all add: alignment_bucket_def Let_def)
    with ch split_windows.remaining [OF True, of CH err d1]
    have "tr = acc @ map (Pair (state u)) [(?min, ?max)] \<and>
        split_windows CH bd (db u) [(?min, ?max)] err d1 \<and> u' = u\<lparr>db := d1\<rparr>"
      by simp
    then show ?thesis by blast
  next
    case False
    let ?bmax = "aligned_boundary bd ?min - 1"
    obtain r d1 where ch: "CH (db u) ?min ?bmax = (r, d1)" by force
    show ?thesis
    proof (cases r)
      case (Some e1)
      with ch False Suc.prems
      have "err = Some e1" "u' = u\<lparr>db := d1\<rparr>" "tr = acc @ [(state u, ?min, ?bmax)]"
        by (simp_all add: alignment_bucket_def aligned_boundary_def Let_def)
      with ch Some split_windows.window_failed [OF False, of CH e1 d1]
      have "tr = acc @ map (Pair (state u)) [(?min, ?bmax)] \<and>
          split_windows CH bd (db u) [(?min, ?bmax)] err d1 \<and> u' = u\<lparr>db := d1\<rparr>"
        by simp
      then show ?thesis by blast
    next
      case None
      with ch False Suc.prems
      have "compactLoop CH bd fuel (u\<lparr>db := d1\<rparr>) (acc @ [(state u, ?min, ?bmax)]) =
          Some (Return err, u', tr)"
        by (simp add: alignment_bucket_def aligned_boundary_def Let_def)
      from Suc.IH [OF this Suc.prems(2)] obtain rs d' where
        tr: "tr = (acc @ [(state u, ?min, ?bmax)]) @ map (Pair (state (u\<lparr>db := d1\<rparr>))) rs"
        and sw: "split_windows CH bd (db (u\<lparr>db := d1\<rparr>)) rs err d'"
        and u': "u' = u\<lparr>db := d1\<rparr>\<lparr>db := d'\<rparr>"
        by blast
      from ch None have ch': "CH (db u) ?min ?bmax = (None, d1)" by simp
      from sw have sw': "split_windows CH bd d1 rs err d'" by simp
      from split_windows.window [OF False ch' sw'] tr u'
      have "tr = acc @ map (Pair (state u)) ((?min, ?bmax) # rs) \<and>
          split_windows CH bd (db u) ((?min, ?bmax) # rs) err d' \<and> u' = u\<lparr>db := d'\<rparr>"
        by simp
      then show ?thesis by blast
    qed
  qed
qed

lemma compactLoop_complete:
  "split_windows CH bd d rs err d' \<Longrightarrow> bd \<noteq> 0 \<Longrightarrow> length rs \<le> fuel \<Longrightarrow> db u = d \<Longrightarrow>
   compactLoop CH bd fuel u acc = Some (Return err, u\<lparr>db := d'\<rparr>, acc @ map (Pair (state u)) rs)"
proof (induction arbitrary: fuel acc u rule: split_windows.induct)
  case (remaining d err d')
  then obtain n where "fuel = Suc n" by (cases fuel) auto
  with remaining show ?case by (simp add: alignment_bucket_def Let_def)
next
  case (window_failed d err d')
  then obtain n where "fuel = Suc n" by (cases fuel) auto
  with window_failed show ?case
    by (simp add: alignment_bucket_def aligned_boundary_def Let_def)
next
  case (window d d' ranges err d'')
  then obtain n where n: "fuel = Suc n" "length ranges \<le> n" by (cases fuel) auto
  let ?c = "(state u, head_MinTime (db_Head d), aligned_boundary bd (head_MinTime (db_Head d)) - 1)"
  have "db (u\<lparr>db := d'\<rparr>) = d'" by simp
  from window.IH [OF window.prems(1) n(2) this, of "acc @ [?c]"]
  have "compactLoop CH bd n (u\<lparr>db := d'\<rparr>) (acc @ [?c]) =
    Some (Return err, u\<lparr>db := d''\<rparr>, (acc @ [?c]) @ map (Pair (state u)) ranges)"
    by simp
  with window.hyps(1,2) window.prems(1,3) n(1) show ?case
    by (simp add: alignment_bucket_def aligned_boundary_def Let_def)
qed

lemma compactLoop_Panic:
  "compactLoop CH bd fuel u acc = Some (Panic, u', tr) \<Longrightarrow> bd = 0 \<and> u' = u \<and> tr = acc"
proof (induction fuel arbitrary: u acc)
  case 0
  then show ?case by simp
next
  case (Suc fuel)
  show ?case
  proof (cases "bd = 0")
    case True
    with Suc.prems show ?thesis by simp
  next
    case nz: False
    let ?min = "head_MinTime (db_Head (db u))" and ?max = "head_MaxTime (db_Head (db u))"
    have False
    proof (cases "int64_div ?min bd * bd = int64_div ?max bd * bd")
      case True
      with nz Suc.prems show False by (simp add: Let_def split: prod.splits)
    next
      case False
      obtain r d1 where ch: "CH (db u) ?min ((int64_div ?min bd + 1) * bd - 1) = (r, d1)" by force
      show False
      proof (cases r)
        case (Some e1)
        with ch False nz Suc.prems show False by (simp add: Let_def)
      next
        case None
        with ch False nz Suc.prems
        have "compactLoop CH bd fuel (u\<lparr>db := d1\<rparr>)
            (acc @ [(state u, ?min, (int64_div ?min bd + 1) * bd - 1)]) = Some (Panic, u', tr)"
          by (simp add: Let_def)
        from Suc.IH [OF this] nz show False by simp
      qed
    qed
    then show ?thesis ..
  qed
qed

text \<open>
  What \<^verbatim>\<open>compactHead\<close> does for a tenant not in head-only mode, in state
  \<open>active\<close> and with no push in flight: the loop runs on the tenant in state
  \<open>forceCompacting\<close>, and the deferred \<^verbatim>\<open>casState\<close> acts on what the loop
  leaves.
\<close>

lemma compactHead_running:
  assumes "head u = None" "state u = active" "pushesInFlight u = 0"
  shows "compactHead CH bd fuel u =
     (case compactLoop CH bd fuel (u\<lparr>state := forceCompacting\<rparr>) [] of
        None \<Rightarrow> None
      | Some (r, u2, trace) \<Rightarrow> Some (r, snd (casState u2 forceCompacting active), trace))"
  using assms by (simp add: compactHead_def casState_def)

lemma restored:
  "state u = active \<Longrightarrow>
   snd (casState (u\<lparr>state := forceCompacting, db := d'\<rparr>) forceCompacting active) = u\<lparr>db := d'\<rparr>"
  by (cases u) (simp add: casState_def)

text \<open>
  C8. Take a tenant with blocks on disk whose state \<^verbatim>\<open>compactHead\<close> moves from
  \<open>active\<close> to \<open>forceCompacting\<close>, no push being in flight, and a block
  duration other than 0. \<^verbatim>\<open>compactHead\<close> returns with the error \<open>err\<close> and
  the tenant \<open>u'\<close>, having compacted the ranges \<open>ranges\<close>, each in state
  \<open>forceCompacting\<close>, exactly when the specification's splitting into windows
  compacts those ranges with that error, \<open>u'\<close> being the tenant with the
  database left by it. And however \<^verbatim>\<open>compactHead\<close> ends, be it a success, an
  error of a compaction or a panic, every compaction it made found the
  tenant in state \<open>forceCompacting\<close>, what the loop left was in that state
  still, and the deferred \<^verbatim>\<open>casState\<close> has moved it to \<open>active\<close> again.
\<close>

theorem compactHead_splits_windows:
  assumes "head u = None" and "state u = active" and "pushesInFlight u = 0"
  shows "casState u active forceCompacting = (True, u\<lparr>state := forceCompacting\<rparr>) \<and>
         (blockDuration \<noteq> 0 \<longrightarrow>
           ((\<exists>fuel. compactHead CH blockDuration fuel u =
                Some (Return err, u', map (Pair forceCompacting) ranges)) \<longleftrightarrow>
            (\<exists>d'. split_windows CH blockDuration (db u) ranges err d' \<and> u' = u\<lparr>db := d'\<rparr>))) \<and>
         (\<forall>fuel res u1 trace.
            compactHead CH blockDuration fuel u = Some (res, u1, trace) \<longrightarrow>
              (\<forall>c\<in>set trace. fst c = forceCompacting) \<and>
              (\<exists>u2. compactLoop CH blockDuration fuel (u\<lparr>state := forceCompacting\<rparr>) [] =
                       Some (res, u2, trace) \<and>
                    state u2 = forceCompacting \<and>
                    casState u2 forceCompacting active = (True, u1)) \<and>
              state u1 = active)"
proof (intro conjI impI allI)
  from assms(2) show "casState u active forceCompacting = (True, u\<lparr>state := forceCompacting\<rparr>)"
    by (simp add: casState_def)
next
  assume nz: "blockDuration \<noteq> 0"
  let ?u1 = "u\<lparr>state := forceCompacting\<rparr>"
  show "(\<exists>fuel. compactHead CH blockDuration fuel u =
            Some (Return err, u', map (Pair forceCompacting) ranges)) \<longleftrightarrow>
        (\<exists>d'. split_windows CH blockDuration (db u) ranges err d' \<and> u' = u\<lparr>db := d'\<rparr>)"
  proof
    assume "\<exists>fuel. compactHead CH blockDuration fuel u =
        Some (Return err, u', map (Pair forceCompacting) ranges)"
    then obtain fuel where "compactHead CH blockDuration fuel u =
        Some (Return err, u', map (Pair forceCompacting) ranges)" ..
    with compactHead_running [OF assms, of CH blockDuration fuel]
    obtain u2 where loop: "compactLoop CH blockDuration fuel ?u1 [] =
        Some (Return err, u2, map (Pair forceCompacting) ranges)"
      and u': "u' = snd (casState u2 forceCompacting active)"
      by (auto split: option.splits)
    from compactLoop_sound [OF loop nz] obtain rs d' where
      tr: "map (Pair forceCompacting) ranges = map (Pair forceCompacting) rs"
      and sw: "split_windows CH blockDuration (db u) rs err d'"
      and u2: "u2 = ?u1\<lparr>db := d'\<rparr>"
      by auto
    from tr have "map snd (map (Pair forceCompacting) ranges) = map snd (map (Pair forceCompacting) rs)"
      by simp
    then have "ranges = rs" by (simp add: comp_def)
    moreover from u' u2 restored [OF assms(2), of d'] have "u' = u\<lparr>db := d'\<rparr>" by simp
    ultimately show "\<exists>d'. split_windows CH blockDuration (db u) ranges err d' \<and> u' = u\<lparr>db := d'\<rparr>"
      using sw by blast
  next
    assume "\<exists>d'. split_windows CH blockDuration (db u) ranges err d' \<and> u' = u\<lparr>db := d'\<rparr>"
    then obtain d' where sw: "split_windows CH blockDuration (db u) ranges err d'"
      and u': "u' = u\<lparr>db := d'\<rparr>" by blast
    have "db ?u1 = db u" by simp
    from compactLoop_complete [OF sw nz _ this, of "length ranges" "[]"]
    have "compactLoop CH blockDuration (length ranges) ?u1 [] =
        Some (Return err, ?u1\<lparr>db := d'\<rparr>, map (Pair forceCompacting) ranges)"
      by simp
    with compactHead_running [OF assms, of CH blockDuration "length ranges"] u'
      restored [OF assms(2), of d']
    have "compactHead CH blockDuration (length ranges) u =
        Some (Return err, u', map (Pair forceCompacting) ranges)" by simp
    then show "\<exists>fuel. compactHead CH blockDuration fuel u =
        Some (Return err, u', map (Pair forceCompacting) ranges)" ..
  qed
next
  fix fuel res u1 trace
  assume run: "compactHead CH blockDuration fuel u = Some (res, u1, trace)"
  let ?u1 = "u\<lparr>state := forceCompacting\<rparr>"
  from run compactHead_running [OF assms, of CH blockDuration fuel]
  obtain u2 where loop: "compactLoop CH blockDuration fuel ?u1 [] = Some (res, u2, trace)"
    and u1: "u1 = snd (casState u2 forceCompacting active)"
    by (auto split: option.splits)
  have shape: "state u2 = forceCompacting \<and> (\<forall>c\<in>set trace. fst c = forceCompacting)"
  proof (cases res)
    case Panic
    with loop compactLoop_Panic [of CH blockDuration fuel ?u1 "[]" u2 trace]
    show ?thesis by simp
  next
    case (Return err)
    show ?thesis
    proof (cases "blockDuration = 0")
      case True
      with loop Return show ?thesis by (cases fuel) simp_all
    next
      case False
      from compactLoop_sound [OF loop [unfolded Return] False] show ?thesis by auto
    qed
  qed
  then have cas: "casState u2 forceCompacting active = (True, u2\<lparr>state := active\<rparr>)"
    by (simp add: casState_def)
  with u1 have u1': "u1 = u2\<lparr>state := active\<rparr>" by simp
  from shape show "\<forall>c\<in>set trace. fst c = forceCompacting" by simp
  from loop shape cas u1'
  show "\<exists>u2. compactLoop CH blockDuration fuel ?u1 [] = Some (res, u2, trace) \<and>
          state u2 = forceCompacting \<and> casState u2 forceCompacting active = (True, u1)"
    by simp
  from u1' show "state u1 = active" by simp
qed

text \<open>
  The theorem on a head from 1500 to 5200 and a block duration of 2000: three
  compactions, of 1500 to 1999, 2000 to 3999 and 4000 to 5200, each made in
  state \<open>forceCompacting\<close>. With the engine that fails, the first compaction
  ends the call; with a block duration of 0 the call panics; the state is
  \<open>active\<close> each time.
\<close>

theorem compactHead_splits_windows_witness:
  "casState tenant active forceCompacting = (True, tenant\<lparr>state := forceCompacting\<rparr>) \<and>
   ((\<exists>fuel. compactHead compact_drop 2000 fuel tenant =
       Some (Return None,
             tenant\<lparr>db := \<lparr>db_Head = \<lparr>head_NumSeries = 3, head_MinTime = 5200, head_MaxTime = 5200\<rparr>,
                           db_Blocks = []\<rparr>\<rparr>,
             map (Pair forceCompacting) [(1500, 1999), (2000, 3999), (4000, 5200)])) \<longleftrightarrow>
    (\<exists>d'. split_windows compact_drop 2000 (db tenant) [(1500, 1999), (2000, 3999), (4000, 5200)] None d' \<and>
       tenant\<lparr>db := \<lparr>db_Head = \<lparr>head_NumSeries = 3, head_MinTime = 5200, head_MaxTime = 5200\<rparr>,
                     db_Blocks = []\<rparr>\<rparr> = tenant\<lparr>db := d'\<rparr>)) \<and>
   compactHead compact_drop 2000 3 tenant =
       Some (Return None,
             tenant\<lparr>db := \<lparr>db_Head = \<lparr>head_NumSeries = 3, head_MinTime = 5200, head_MaxTime = 5200\<rparr>,
                           db_Blocks = []\<rparr>\<rparr>,
             [(forceCompacting, 1500, 1999), (forceCompacting, 2000, 3999),
              (forceCompacting, 4000, 5200)]) \<and>
   (\<exists>u2. compactLoop compact_drop 2000 3 (tenant\<lparr>state := forceCompacting\<rparr>) [] =
       Some (Return None, u2,
             [(forceCompacting, 1500, 1999), (forceCompacting, 2000, 3999),
              (forceCompacting, 4000, 5200)]) \<and>
      state u2 = forceCompacting \<and>
      casState u2 forceCompacting active =
        (True, tenant\<lparr>db := \<lparr>db_Head = \<lparr>head_NumSeries = 3, head_MinTime = 5200, head_MaxTime = 5200\<rparr>,
                              db_Blocks = []\<rparr>\<rparr>)) \<and>
   state (tenant\<lparr>db := \<lparr>db_Head = \<lparr>head_NumSeries = 3, head_MinTime = 5200, head_MaxTime = 5200\<rparr>,
                       db_Blocks = []\<rparr>\<rparr>) = active \<and>
   compactHead compact_fails 2000 3 tenant =
       Some (Return (Some (ErrOther ''compaction failed'')), tenant, [(forceCompacting, 1500, 1999)]) \<and>
   compactHead compact_drop 0 3 tenant = Some (Panic, tenant, [])"
proof -
  let ?u' = "tenant\<lparr>db := \<lparr>db_Head = \<lparr>head_NumSeries = 3, head_MinTime = 5200, head_MaxTime = 5200\<rparr>,
                           db_Blocks = []\<rparr>\<rparr>"
  let ?tr = "[(forceCompacting, 1500, 1999), (forceCompacting, 2000, 3999),
              (forceCompacting, 4000, 5200)] :: compaction list"
  have h: "head tenant = None" "state tenant = active" "pushesInFlight tenant = 0"
    by (simp_all add: tenant_def)
  have nz: "(2000 :: int64) \<noteq> 0" by simp
  have run: "compactHead compact_drop 2000 3 tenant = Some (Return None, ?u', ?tr)"
    by (simp add: compactHead_def casState_def tenant_def compact_drop_def int64_div_def go_div_def
        numeral_3_eq_3 Let_def)
  have fails: "compactHead compact_fails 2000 3 tenant =
       Some (Return (Some (ErrOther ''compaction failed'')), tenant, [(forceCompacting, 1500, 1999)])"
    by (simp add: compactHead_def casState_def tenant_def compact_fails_def int64_div_def go_div_def
        numeral_3_eq_3 Let_def)
  have panic: "compactHead compact_drop 0 3 tenant = Some (Panic, tenant, [])"
    by (simp add: compactHead_def casState_def tenant_def numeral_3_eq_3 Let_def)
  note t = compactHead_splits_windows [OF h, of 2000 compact_drop None ?u'
      "[(1500, 1999), (2000, 3999), (4000, 5200)]"]
  from t have cas: "casState tenant active forceCompacting = (True, tenant\<lparr>state := forceCompacting\<rparr>)"
    by blast
  from t nz have iff: "(\<exists>fuel. compactHead compact_drop 2000 fuel tenant =
       Some (Return None, ?u', map (Pair forceCompacting) [(1500, 1999), (2000, 3999), (4000, 5200)])) \<longleftrightarrow>
    (\<exists>d'. split_windows compact_drop 2000 (db tenant) [(1500, 1999), (2000, 3999), (4000, 5200)] None d' \<and>
       ?u' = tenant\<lparr>db := d'\<rparr>)"
    by blast
  from t have "\<forall>fuel res u1 trace.
            compactHead compact_drop 2000 fuel tenant = Some (res, u1, trace) \<longrightarrow>
              (\<forall>c\<in>set trace. fst c = forceCompacting) \<and>
              (\<exists>u2. compactLoop compact_drop 2000 fuel (tenant\<lparr>state := forceCompacting\<rparr>) [] =
                       Some (res, u2, trace) \<and>
                    state u2 = forceCompacting \<and>
                    casState u2 forceCompacting active = (True, u1)) \<and>
              state u1 = active"
    by blast
  with run have ex: "(\<exists>u2. compactLoop compact_drop 2000 3 (tenant\<lparr>state := forceCompacting\<rparr>) [] =
       Some (Return None, u2, ?tr) \<and> state u2 = forceCompacting \<and>
      casState u2 forceCompacting active = (True, ?u'))" and st: "state ?u' = active"
    by blast+
  from cas iff run ex st fails panic show ?thesis by blast
qed

text \<open>
  C4, as amended. For a tenant with blocks on disk (not in head-only mode), a
  forced compaction requested in any state other than \<open>active\<close> returns an
  error and leaves the tenant as it was, compacting nothing. In head-only
  mode \<^verbatim>\<open>compactHead\<close> returns nil at once, whatever the state, and leaves
  the tenant as it was. A request for the append permit in a state other than
  \<open>active\<close> and \<open>activeShipping\<close> is rejected with the error that names the
  state, and the number of pushes in flight stays the same.
\<close>

theorem conflicting_operations_rejected:
  "(head u = None \<and> state u \<noteq> active \<longrightarrow>
      compactHead CH blockDuration fuel u =
        Some (Return (Some (ErrNew ''TSDB head cannot be compacted because it is not in active state (possibly being closed or blocks shipping in progress)'')), u, [])) \<and>
   (head u \<noteq> None \<longrightarrow> compactHead CH blockDuration fuel u = Some (Return None, u, [])) \<and>
   (state u = forceCompacting \<longrightarrow>
      acquireAppendLock u = (Some (ErrNew ''forced compaction in progress''), u)) \<and>
   (state u = closing \<longrightarrow> acquireAppendLock u = (Some (ErrNew ''TSDB is closing''), u)) \<and>
   (state u = closed \<longrightarrow> acquireAppendLock u = (Some (ErrNew ''TSDB is not active''), u)) \<and>
   (state u \<noteq> active \<and> state u \<noteq> activeShipping \<longrightarrow>
      fst (acquireAppendLock u) \<noteq> None \<and>
      pushesInFlight (snd (acquireAppendLock u)) = pushesInFlight u)"
  by (cases "state u") (simp_all add: compactHead_def casState_def acquireAppendLock_def)

text \<open>
  The theorem in the states \<open>activeShipping\<close>, \<open>forceCompacting\<close>, \<open>closing\<close>
  and \<open>closed\<close>, and on the tenant in head-only mode, in the states \<open>closing\<close>
  and \<open>forceCompacting\<close>.
\<close>

theorem conflicting_operations_rejected_witness:
  "compactHead compact_drop 2000 3 (tenant\<lparr>state := activeShipping\<rparr>) =
     Some (Return (Some (ErrNew ''TSDB head cannot be compacted because it is not in active state (possibly being closed or blocks shipping in progress)'')),
           tenant\<lparr>state := activeShipping\<rparr>, []) \<and>
   compactHead compact_drop 2000 3 tenant_head_only = Some (Return None, tenant_head_only, []) \<and>
   compactHead compact_drop 2000 3 (tenant_head_only\<lparr>state := forceCompacting\<rparr>) =
     Some (Return None, tenant_head_only\<lparr>state := forceCompacting\<rparr>, []) \<and>
   acquireAppendLock (tenant\<lparr>state := forceCompacting\<rparr>) =
     (Some (ErrNew ''forced compaction in progress''), tenant\<lparr>state := forceCompacting\<rparr>) \<and>
   acquireAppendLock (tenant\<lparr>state := closing\<rparr>) =
     (Some (ErrNew ''TSDB is closing''), tenant\<lparr>state := closing\<rparr>) \<and>
   acquireAppendLock (tenant\<lparr>state := closed\<rparr>) =
     (Some (ErrNew ''TSDB is not active''), tenant\<lparr>state := closed\<rparr>) \<and>
   fst (acquireAppendLock (tenant\<lparr>state := closed\<rparr>)) \<noteq> None \<and>
   pushesInFlight (snd (acquireAppendLock (tenant\<lparr>state := closed\<rparr>))) =
     pushesInFlight (tenant\<lparr>state := closed\<rparr>)"
  using conflicting_operations_rejected [of "tenant\<lparr>state := activeShipping\<rparr>" compact_drop 2000 3]
    conflicting_operations_rejected [of tenant_head_only compact_drop 2000 3]
    conflicting_operations_rejected [of "tenant_head_only\<lparr>state := forceCompacting\<rparr>" compact_drop 2000 3]
    conflicting_operations_rejected [of "tenant\<lparr>state := forceCompacting\<rparr>"]
    conflicting_operations_rejected [of "tenant\<lparr>state := closing\<rparr>"]
    conflicting_operations_rejected [of "tenant\<lparr>state := closed\<rparr>"]
  by (simp add: tenant_def tenant_head_only_def)

text \<open>
  C4 as stated fails: in head-only mode \<^verbatim>\<open>compactHead\<close> returns nil before it
  looks at the state, here \<open>closing\<close>: a forced compaction requested of a
  tenant that is being closed returns no error.
\<close>

theorem conflicting_operations_rejected_counterexample:
  "head tenant_head_only \<noteq> None \<and> state tenant_head_only = closing \<and>
   state tenant_head_only \<noteq> active \<and>
   compactHead compact_drop 2000 3 tenant_head_only = Some (Return None, tenant_head_only, [])"
  by (simp add: compactHead_def tenant_head_only_def tenant_def)

text \<open>
  The loop of \<^verbatim>\<open>getOldestUnshippedBlockTime\<close>: above 0 when a block is
  missing from the cache, the timestamps of such blocks being above 0, and 0
  when no block is missing.
\<close>

lemma oldestUnshipped_pos:
  assumes "\<forall>b\<in>set bs. cached b = None \<longrightarrow> ULID_Time b > 0"
    and "ts > 0 \<or> (\<exists>b\<in>set bs. cached b = None)"
  shows "oldestUnshipped cached bs ts > 0"
  using assms
proof (induction bs arbitrary: ts)
  case Nil
  then show ?case by simp
next
  case (Cons b bs)
  show ?case
  proof (cases "cached b = None")
    case False
    with Cons.prems have "ts > 0 \<or> (\<exists>b\<in>set bs. cached b = None)" by auto
    with Cons.IH [of ts] Cons.prems(1) False show ?thesis by simp
  next
    case True
    with Cons.prems(1) have pos: "ULID_Time b > 0" by simp
    show ?thesis
    proof (cases "ts = 0 \<or> ULID_Time b < ts")
      case t: True
      with True Cons.IH [of "ULID_Time b"] Cons.prems(1) pos show ?thesis by simp
    next
      case f: False
      then have "ts > 0" by simp
      with True f Cons.IH [of ts] Cons.prems(1) show ?thesis by simp
    qed
  qed
qed

lemma oldestUnshipped_all_shipped:
  "\<forall>b\<in>set bs. cached b \<noteq> None \<Longrightarrow> oldestUnshipped cached bs ts = ts"
  by (induction bs arbitrary: ts) auto

text \<open>
  C5. \<^verbatim>\<open>shouldCloseTSDB\<close> decides in this order, the first condition that
  holds giving the answer: (1) with the deletion mark found the tenant is
  closeable, whatever the time of its last update; (2) when the time of the
  last update, in whole seconds, plus the idle timeout is not before now, it
  is not closeable; (3) in head-only mode it is closeable; (4) with series in
  the head it is not closeable; (5) with a local block that is absent from
  the cache of shipped blocks it is not closeable; (6) otherwise it is
  closeable. A ULID carries the time of its creation in milliseconds since
  1970: in (5) the blocks absent from the cache have a timestamp above 0, the
  value 0 being what \<^verbatim>\<open>getOldestUnshippedBlockTime\<close> returns for "all blocks
  shipped".
\<close>

theorem shouldCloseTSDB_order:
  "(deletionMarkFound u \<longrightarrow>
      shouldCloseTSDB u now idle = tsdbTenantMarkedForDeletion \<and>
      shouldClose (shouldCloseTSDB u now idle)) \<and>
   (\<not> deletionMarkFound u \<and> now \<le> lastUpdate u * 1000000000 + idle \<longrightarrow>
      shouldCloseTSDB u now idle = tsdbNotIdle \<and> \<not> shouldClose (shouldCloseTSDB u now idle)) \<and>
   (\<not> deletionMarkFound u \<and> lastUpdate u * 1000000000 + idle < now \<and> head u \<noteq> None \<longrightarrow>
      shouldCloseTSDB u now idle = tsdbIdle \<and> shouldClose (shouldCloseTSDB u now idle)) \<and>
   (\<not> deletionMarkFound u \<and> lastUpdate u * 1000000000 + idle < now \<and> head u = None \<and>
    HeadNumSeries u > 0 \<longrightarrow>
      shouldCloseTSDB u now idle = tsdbNotCompacted \<and>
      \<not> shouldClose (shouldCloseTSDB u now idle)) \<and>
   (\<not> deletionMarkFound u \<and> lastUpdate u * 1000000000 + idle < now \<and> head u = None \<and>
    HeadNumSeries u = 0 \<and> (\<exists>b\<in>set (Blocks u). shippedBlocks u b = None) \<and>
    (\<forall>b\<in>set (Blocks u). shippedBlocks u b = None \<longrightarrow> ULID_Time b > 0) \<longrightarrow>
      shouldCloseTSDB u now idle = tsdbNotShipped \<and>
      \<not> shouldClose (shouldCloseTSDB u now idle)) \<and>
   (\<not> deletionMarkFound u \<and> lastUpdate u * 1000000000 + idle < now \<and> head u = None \<and>
    HeadNumSeries u = 0 \<and> (\<forall>b\<in>set (Blocks u). shippedBlocks u b \<noteq> None) \<longrightarrow>
      shouldCloseTSDB u now idle = tsdbIdle \<and> shouldClose (shouldCloseTSDB u now idle))"
proof -
  have 5: "shouldCloseTSDB u now idle = tsdbNotShipped"
    if a: "\<not> deletionMarkFound u \<and> lastUpdate u * 1000000000 + idle < now \<and> head u = None \<and>
      HeadNumSeries u = 0 \<and> (\<exists>b\<in>set (Blocks u). shippedBlocks u b = None) \<and>
      (\<forall>b\<in>set (Blocks u). shippedBlocks u b = None \<longrightarrow> ULID_Time b > 0)"
  proof -
    from a have "oldestUnshipped (shippedBlocks u) (Blocks u) 0 > 0"
      using oldestUnshipped_pos [of "Blocks u" "shippedBlocks u" 0] by blast
    with a show ?thesis
      by (simp add: shouldCloseTSDB_def isIdle_def getOldestUnshippedBlockTime_def
          getCachedShippedBlocks_def)
  qed
  have 6: "shouldCloseTSDB u now idle = tsdbIdle"
    if a: "\<not> deletionMarkFound u \<and> lastUpdate u * 1000000000 + idle < now \<and> head u = None \<and>
      HeadNumSeries u = 0 \<and> (\<forall>b\<in>set (Blocks u). shippedBlocks u b \<noteq> None)"
  proof -
    from a have "oldestUnshipped (shippedBlocks u) (Blocks u) 0 = 0"
      using oldestUnshipped_all_shipped [of "Blocks u" "shippedBlocks u" 0] by blast
    with a show ?thesis
      by (simp add: shouldCloseTSDB_def isIdle_def getOldestUnshippedBlockTime_def
          getCachedShippedBlocks_def)
  qed
  show ?thesis
  proof (intro conjI impI)
    assume a: "\<not> deletionMarkFound u \<and> lastUpdate u * 1000000000 + idle < now \<and> head u = None \<and>
      HeadNumSeries u = 0 \<and> (\<exists>b\<in>set (Blocks u). shippedBlocks u b = None) \<and>
      (\<forall>b\<in>set (Blocks u). shippedBlocks u b = None \<longrightarrow> ULID_Time b > 0)"
    from 5 [OF a] show "shouldCloseTSDB u now idle = tsdbNotShipped" .
    from 5 [OF a] show "\<not> shouldClose (shouldCloseTSDB u now idle)" by (simp add: shouldClose_def)
  next
    assume a: "\<not> deletionMarkFound u \<and> lastUpdate u * 1000000000 + idle < now \<and> head u = None \<and>
      HeadNumSeries u = 0 \<and> (\<forall>b\<in>set (Blocks u). shippedBlocks u b \<noteq> None)"
    from 6 [OF a] show "shouldCloseTSDB u now idle = tsdbIdle" .
    from 6 [OF a] show "shouldClose (shouldCloseTSDB u now idle)" by (simp add: shouldClose_def)
  qed (simp_all add: shouldCloseTSDB_def isIdle_def shouldClose_def)
qed

text \<open>
  The theorem at 2000 seconds after the epoch, with an idle timeout of one
  hour for the first two tenants and of one second for the others: a tenant
  marked for deletion that was updated one second before; the same without
  the mark; an idle tenant in head-only mode; an idle tenant with series in
  its head; an idle tenant with an empty head and a local block that the
  cache lacks; the same with the block in the cache.
\<close>

theorem shouldCloseTSDB_order_witness:
  "shouldCloseTSDB (tenant\<lparr>deletionMarkFound := True, lastUpdate := 1999\<rparr>) 2000000000000 3600000000000 =
     tsdbTenantMarkedForDeletion \<and>
   shouldClose (shouldCloseTSDB (tenant\<lparr>deletionMarkFound := True, lastUpdate := 1999\<rparr>)
     2000000000000 3600000000000) \<and>
   shouldCloseTSDB (tenant\<lparr>lastUpdate := 1999\<rparr>) 2000000000000 3600000000000 = tsdbNotIdle \<and>
   \<not> shouldClose (shouldCloseTSDB (tenant\<lparr>lastUpdate := 1999\<rparr>) 2000000000000 3600000000000) \<and>
   shouldCloseTSDB tenant_head_only 2000000000000 1000000000 = tsdbIdle \<and>
   shouldClose (shouldCloseTSDB tenant_head_only 2000000000000 1000000000) \<and>
   shouldCloseTSDB tenant 2000000000000 1000000000 = tsdbNotCompacted \<and>
   \<not> shouldClose (shouldCloseTSDB tenant 2000000000000 1000000000) \<and>
   shouldCloseTSDB tenant_unshipped 2000000000000 1000000000 = tsdbNotShipped \<and>
   \<not> shouldClose (shouldCloseTSDB tenant_unshipped 2000000000000 1000000000) \<and>
   shouldCloseTSDB (tenant_unshipped\<lparr>shippedBlocks := [ULID 1001 1 \<mapsto> 5000000]\<rparr>)
     2000000000000 1000000000 = tsdbIdle \<and>
   shouldClose (shouldCloseTSDB (tenant_unshipped\<lparr>shippedBlocks := [ULID 1001 1 \<mapsto> 5000000]\<rparr>)
     2000000000000 1000000000)"
proof -
  let ?marked = "tenant\<lparr>deletionMarkFound := True, lastUpdate := 1999\<rparr>"
  let ?fresh = "tenant\<lparr>lastUpdate := 1999\<rparr>"
  let ?shipped = "tenant_unshipped\<lparr>shippedBlocks := [ULID 1001 1 \<mapsto> 5000000]\<rparr>"
  have h1: "deletionMarkFound ?marked" by simp
  have h2: "\<not> deletionMarkFound ?fresh \<and> 2000000000000 \<le> lastUpdate ?fresh * 1000000000 + 3600000000000"
    by (simp add: tenant_def)
  have h3: "\<not> deletionMarkFound tenant_head_only \<and>
      lastUpdate tenant_head_only * 1000000000 + 1000000000 < 2000000000000 \<and>
      head tenant_head_only \<noteq> None"
    by (simp add: tenant_def tenant_head_only_def)
  have h4: "\<not> deletionMarkFound tenant \<and> lastUpdate tenant * 1000000000 + 1000000000 < 2000000000000 \<and>
      head tenant = None \<and> HeadNumSeries tenant > 0"
    by (simp add: tenant_def HeadNumSeries_def)
  have h5: "\<not> deletionMarkFound tenant_unshipped \<and>
      lastUpdate tenant_unshipped * 1000000000 + 1000000000 < 2000000000000 \<and>
      head tenant_unshipped = None \<and> HeadNumSeries tenant_unshipped = 0 \<and>
      (\<exists>b\<in>set (Blocks tenant_unshipped). shippedBlocks tenant_unshipped b = None) \<and>
      (\<forall>b\<in>set (Blocks tenant_unshipped). shippedBlocks tenant_unshipped b = None \<longrightarrow> ULID_Time b > 0)"
    by (simp add: tenant_def tenant_unshipped_def HeadNumSeries_def Blocks_def)
  have h6: "\<not> deletionMarkFound ?shipped \<and>
      lastUpdate ?shipped * 1000000000 + 1000000000 < 2000000000000 \<and>
      head ?shipped = None \<and> HeadNumSeries ?shipped = 0 \<and>
      (\<forall>b\<in>set (Blocks ?shipped). shippedBlocks ?shipped b \<noteq> None)"
    by (simp add: tenant_def tenant_unshipped_def HeadNumSeries_def Blocks_def)
  from h1 shouldCloseTSDB_order [of ?marked 2000000000000 3600000000000]
  have c1: "shouldCloseTSDB ?marked 2000000000000 3600000000000 = tsdbTenantMarkedForDeletion \<and>
      shouldClose (shouldCloseTSDB ?marked 2000000000000 3600000000000)" by blast
  from h2 shouldCloseTSDB_order [of ?fresh 2000000000000 3600000000000]
  have c2: "shouldCloseTSDB ?fresh 2000000000000 3600000000000 = tsdbNotIdle \<and>
      \<not> shouldClose (shouldCloseTSDB ?fresh 2000000000000 3600000000000)" by blast
  from h3 shouldCloseTSDB_order [of tenant_head_only 2000000000000 1000000000]
  have c3: "shouldCloseTSDB tenant_head_only 2000000000000 1000000000 = tsdbIdle \<and>
      shouldClose (shouldCloseTSDB tenant_head_only 2000000000000 1000000000)" by blast
  from h4 shouldCloseTSDB_order [of tenant 2000000000000 1000000000]
  have c4: "shouldCloseTSDB tenant 2000000000000 1000000000 = tsdbNotCompacted \<and>
      \<not> shouldClose (shouldCloseTSDB tenant 2000000000000 1000000000)" by blast
  from h5 shouldCloseTSDB_order [of tenant_unshipped 2000000000000 1000000000]
  have c5: "shouldCloseTSDB tenant_unshipped 2000000000000 1000000000 = tsdbNotShipped \<and>
      \<not> shouldClose (shouldCloseTSDB tenant_unshipped 2000000000000 1000000000)" by blast
  from h6 shouldCloseTSDB_order [of ?shipped 2000000000000 1000000000]
  have c6: "shouldCloseTSDB ?shipped 2000000000000 1000000000 = tsdbIdle \<and>
      shouldClose (shouldCloseTSDB ?shipped 2000000000000 1000000000)" by blast
  from c1 c2 c3 c4 c5 c6 show ?thesis by blast
qed

text \<open>
  The bound on the timestamps in (5) is needed. With a local block, absent
  from the cache, whose ULID has the timestamp 0 (a block made at the epoch),
  \<^verbatim>\<open>getOldestUnshippedBlockTime\<close> returns 0 as it does when every block is
  shipped, and \<^verbatim>\<open>shouldCloseTSDB\<close> answers \<open>tsdbIdle\<close>.
\<close>

lemma getOldestUnshippedBlockTime_epoch:
  "Blocks tenant_epoch_block = [ULID 0 7] \<and>
   getCachedShippedBlocks tenant_epoch_block (ULID 0 7) = None \<and>
   getOldestUnshippedBlockTime tenant_epoch_block = 0 \<and>
   shouldCloseTSDB tenant_epoch_block 2000000000000 1000000000 = tsdbIdle"
  by (simp add: tenant_epoch_block_def tenant_def Blocks_def getCachedShippedBlocks_def
      isIdle_def HeadNumSeries_def getOldestUnshippedBlockTime_def shouldCloseTSDB_def)

end
